theory Spec2Isabelle
  imports Main "HOL-Library.Word"
begin

unbundle bit_operations_syntax

section \<open>modernglpp: a resource layer over an OpenGL-style device API\<close>

text \<open>
  The development embeds \<^verbatim>\<open>modernglpp.cc\<close>, the \<^verbatim>\<open>View\<close> template of
  \<^verbatim>\<open>modernglpp.h\<close> and the \<^verbatim>\<open>Uniform\<close> specialisations of \<^verbatim>\<open>example.cc\<close>.
  The device API is not part of the program: every device call is recorded, with its
  arguments and its result, in a call log, and what the device answers is a parameter
  of the model (a function of the calls made so far).

  \<^verbatim>\<open>modernglpp.h\<close> declares an older interface than \<^verbatim>\<open>modernglpp.cc\<close> defines
  (\<^verbatim>\<open>Texture::make\<close> with five parameters, \<^verbatim>\<open>Sampler::activate\<close> for
  \<^verbatim>\<open>Sampler::bind\<close>, no \<^verbatim>\<open>TextureSourceData\<close> or \<^verbatim>\<open>TextureOptions\<close>, the eight
  sized texture formats only); where they differ the model follows \<^verbatim>\<open>modernglpp.cc\<close>
  and \<^verbatim>\<open>example.cc\<close>, which calls it. \<^verbatim>\<open>mgl::viewport\<close>, the \<^verbatim>\<open>Attribute\<close>
  templates and \<^verbatim>\<open>StringView::stringLength\<close> are left out: nothing below depends on
  them, and a string view is carried as the view it is.
\<close>

subsection \<open>Machine types\<close>

type_synonym GLenum = "32 word"
type_synonym GLbitfield = "32 word"
type_synonym GLint = "32 word"
type_synonym GLsizei = "32 word"
type_synonym GLboolean = "8 word"
type_synonym handle_t = "32 word"
type_synonym c_int = "32 word"

text \<open>A \<^verbatim>\<open>float\<close> is carried as its 32-bit pattern; the program does no arithmetic on one.\<close>
type_synonym c_float = "32 word"

text \<open>
  Addresses and \<^verbatim>\<open>size_t\<close> values are natural numbers, address 0 is \<^verbatim>\<open>nullptr\<close>;
  where the program multiplies or converts a \<^verbatim>\<open>size_t\<close> the reduction modulo
  \<open>2 ^ 64\<close> is written out.
\<close>
type_synonym addr = nat
type_synonym size_t = nat

subsection \<open>Device constants\<close>

text \<open>
  Modelled from the spec: the header \<^verbatim>\<open>glad/glad.h\<close>, which defines the device
  constants, is not among the sources. The specification calls them the underlying
  device constants; they have the values of the OpenGL registry here.
\<close>

abbreviation GL_FALSE :: "32 word" where "GL_FALSE \<equiv> 0"
abbreviation GL_TRUE :: "32 word" where "GL_TRUE \<equiv> 1"
abbreviation GL_NO_ERROR :: GLenum where "GL_NO_ERROR \<equiv> 0"
abbreviation GL_INVALID_ENUM :: GLenum where "GL_INVALID_ENUM \<equiv> 0x0500"
abbreviation GL_INVALID_VALUE :: GLenum where "GL_INVALID_VALUE \<equiv> 0x0501"
abbreviation GL_INVALID_OPERATION :: GLenum where "GL_INVALID_OPERATION \<equiv> 0x0502"
abbreviation GL_OUT_OF_MEMORY :: GLenum where "GL_OUT_OF_MEMORY \<equiv> 0x0505"
abbreviation GL_POINTS :: GLenum where "GL_POINTS \<equiv> 0x0000"
abbreviation GL_LINES :: GLenum where "GL_LINES \<equiv> 0x0001"
abbreviation GL_TRIANGLES :: GLenum where "GL_TRIANGLES \<equiv> 0x0004"
abbreviation GL_DEPTH_BUFFER_BIT :: GLbitfield where "GL_DEPTH_BUFFER_BIT \<equiv> 0x00000100"
abbreviation GL_COLOR_BUFFER_BIT :: GLbitfield where "GL_COLOR_BUFFER_BIT \<equiv> 0x00004000"
abbreviation GL_UNSIGNED_BYTE :: GLenum where "GL_UNSIGNED_BYTE \<equiv> 0x1401"
abbreviation GL_FLOAT :: GLenum where "GL_FLOAT \<equiv> 0x1406"
abbreviation GL_TEXTURE_2D :: GLenum where "GL_TEXTURE_2D \<equiv> 0x0DE1"
abbreviation GL_TEXTURE0 :: GLenum where "GL_TEXTURE0 \<equiv> 0x84C0"
abbreviation GL_TEXTURE_MAG_FILTER :: GLenum where "GL_TEXTURE_MAG_FILTER \<equiv> 0x2800"
abbreviation GL_TEXTURE_MIN_FILTER :: GLenum where "GL_TEXTURE_MIN_FILTER \<equiv> 0x2801"
abbreviation GL_TEXTURE_WRAP_S :: GLenum where "GL_TEXTURE_WRAP_S \<equiv> 0x2802"
abbreviation GL_TEXTURE_WRAP_T :: GLenum where "GL_TEXTURE_WRAP_T \<equiv> 0x2803"
abbreviation GL_TEXTURE_WRAP_R :: GLenum where "GL_TEXTURE_WRAP_R \<equiv> 0x8072"
abbreviation GL_NEAREST :: GLenum where "GL_NEAREST \<equiv> 0x2600"
abbreviation GL_LINEAR :: GLenum where "GL_LINEAR \<equiv> 0x2601"
abbreviation GL_REPEAT :: GLenum where "GL_REPEAT \<equiv> 0x2901"
abbreviation GL_CLAMP_TO_BORDER :: GLenum where "GL_CLAMP_TO_BORDER \<equiv> 0x812D"
abbreviation GL_CLAMP_TO_EDGE :: GLenum where "GL_CLAMP_TO_EDGE \<equiv> 0x812F"
abbreviation GL_MIRRORED_REPEAT :: GLenum where "GL_MIRRORED_REPEAT \<equiv> 0x8370"
abbreviation GL_MIRROR_CLAMP_TO_EDGE :: GLenum where "GL_MIRROR_CLAMP_TO_EDGE \<equiv> 0x8743"
abbreviation GL_RED :: GLenum where "GL_RED \<equiv> 0x1903"
abbreviation GL_RGB :: GLenum where "GL_RGB \<equiv> 0x1907"
abbreviation GL_RGBA :: GLenum where "GL_RGBA \<equiv> 0x1908"
abbreviation GL_BGR :: GLenum where "GL_BGR \<equiv> 0x80E0"
abbreviation GL_BGRA :: GLenum where "GL_BGRA \<equiv> 0x80E1"
abbreviation GL_RG :: GLenum where "GL_RG \<equiv> 0x8227"
abbreviation GL_R8 :: GLenum where "GL_R8 \<equiv> 0x8229"
abbreviation GL_RG8 :: GLenum where "GL_RG8 \<equiv> 0x822B"
abbreviation GL_RGB8 :: GLenum where "GL_RGB8 \<equiv> 0x8051"
abbreviation GL_RGBA8 :: GLenum where "GL_RGBA8 \<equiv> 0x8058"
abbreviation GL_R32F :: GLenum where "GL_R32F \<equiv> 0x822E"
abbreviation GL_RG32F :: GLenum where "GL_RG32F \<equiv> 0x8230"
abbreviation GL_RGBA32F :: GLenum where "GL_RGBA32F \<equiv> 0x8814"
abbreviation GL_RGB32F :: GLenum where "GL_RGB32F \<equiv> 0x8815"
abbreviation GL_ARRAY_BUFFER :: GLenum where "GL_ARRAY_BUFFER \<equiv> 0x8892"
abbreviation GL_ELEMENT_ARRAY_BUFFER :: GLenum where "GL_ELEMENT_ARRAY_BUFFER \<equiv> 0x8893"
abbreviation GL_UNIFORM_BUFFER :: GLenum where "GL_UNIFORM_BUFFER \<equiv> 0x8A11"
abbreviation GL_SHADER_STORAGE_BUFFER :: GLenum where "GL_SHADER_STORAGE_BUFFER \<equiv> 0x90D2"
abbreviation GL_STATIC_DRAW :: GLenum where "GL_STATIC_DRAW \<equiv> 0x88E4"
abbreviation GL_DYNAMIC_DRAW :: GLenum where "GL_DYNAMIC_DRAW \<equiv> 0x88E8"
abbreviation GL_FRAGMENT_SHADER :: GLenum where "GL_FRAGMENT_SHADER \<equiv> 0x8B30"
abbreviation GL_VERTEX_SHADER :: GLenum where "GL_VERTEX_SHADER \<equiv> 0x8B31"
abbreviation GL_COMPILE_STATUS :: GLenum where "GL_COMPILE_STATUS \<equiv> 0x8B81"
abbreviation GL_LINK_STATUS :: GLenum where "GL_LINK_STATUS \<equiv> 0x8B82"

text \<open>
  The sizes the program takes with \<^verbatim>\<open>sizeof\<close>, on a platform with 4-byte \<^verbatim>\<open>int\<close>,
  \<^verbatim>\<open>float\<close> and enumerations and 8-byte pointers and \<^verbatim>\<open>size_t\<close>.
\<close>

abbreviation sizeof_float :: size_t where "sizeof_float \<equiv> 4"
abbreviation sizeof_pointer :: size_t where "sizeof_pointer \<equiv> 8"
abbreviation INT_MAX :: nat where "INT_MAX \<equiv> 2147483647"

subsection \<open>Enumerations and their mapping to device constants\<close>

datatype BufferType = Array | Element | Uniform | Shader

datatype DataType = Float | Byte

datatype DrawMode = Triangles | Lines | Points

text \<open>
  Modelled from the spec: the declaration of \<^verbatim>\<open>TextureFormat\<close> with the base shapes
  and those of \<^verbatim>\<open>TextureFilterMode\<close> and \<^verbatim>\<open>TextureWrapMode\<close> are missing from
  the header. The enumerators are the ones \<^verbatim>\<open>modernglpp.cc\<close> switches over: for a
  texture format the six base shapes and the eight sized formats (the specification's
  "sized" forms and "base" shape forms).
\<close>

datatype TextureFormat =
    RED | RG | RGB | RGBA | BGR | BGRA
  | R8u | RG8u | RGB8u | RGBA8u
  | R32f | RG32f | RGB32f | RGBA32f

datatype TextureFilterMode = Linear | Nearest

datatype TextureWrapMode =
  ClampToEdge | ClampToBorder | MirroredRepeat | Repeat | MirrorClampToEdge

text \<open>
  Each \<^verbatim>\<open>enum_cast\<close> overload is a switch over every enumerator; the
  \<^verbatim>\<open>return GL_INVALID_ENUM\<close> after the switch is reached by no enumerator.
\<close>

fun enum_cast_DataType :: "DataType \<Rightarrow> GLenum" where
  "enum_cast_DataType Float = GL_FLOAT"
| "enum_cast_DataType Byte = GL_UNSIGNED_BYTE"

fun enum_cast_BufferType :: "BufferType \<Rightarrow> GLenum" where
  "enum_cast_BufferType Array = GL_ARRAY_BUFFER"
| "enum_cast_BufferType Element = GL_ELEMENT_ARRAY_BUFFER"
| "enum_cast_BufferType Uniform = GL_UNIFORM_BUFFER"
| "enum_cast_BufferType Shader = GL_SHADER_STORAGE_BUFFER"

fun enum_cast_DrawMode :: "DrawMode \<Rightarrow> GLenum" where
  "enum_cast_DrawMode Triangles = GL_TRIANGLES"
| "enum_cast_DrawMode Lines = GL_LINES"
| "enum_cast_DrawMode Points = GL_POINTS"

fun enum_cast_TextureFormat :: "TextureFormat \<Rightarrow> GLenum" where
  "enum_cast_TextureFormat RED = GL_RED"
| "enum_cast_TextureFormat RG = GL_RG"
| "enum_cast_TextureFormat RGB = GL_RGB"
| "enum_cast_TextureFormat RGBA = GL_RGBA"
| "enum_cast_TextureFormat BGR = GL_BGR"
| "enum_cast_TextureFormat BGRA = GL_BGRA"
| "enum_cast_TextureFormat R8u = GL_R8"
| "enum_cast_TextureFormat RG8u = GL_RG8"
| "enum_cast_TextureFormat RGB8u = GL_RGB8"
| "enum_cast_TextureFormat RGBA8u = GL_RGBA8"
| "enum_cast_TextureFormat R32f = GL_R32F"
| "enum_cast_TextureFormat RG32f = GL_RG32F"
| "enum_cast_TextureFormat RGB32f = GL_RGB32F"
| "enum_cast_TextureFormat RGBA32f = GL_RGBA32F"

fun enum_cast_TextureFilterMode :: "TextureFilterMode \<Rightarrow> GLenum" where
  "enum_cast_TextureFilterMode Linear = GL_LINEAR"
| "enum_cast_TextureFilterMode Nearest = GL_NEAREST"

fun enum_cast_TextureWrapMode :: "TextureWrapMode \<Rightarrow> GLenum" where
  "enum_cast_TextureWrapMode ClampToEdge = GL_CLAMP_TO_EDGE"
| "enum_cast_TextureWrapMode ClampToBorder = GL_CLAMP_TO_BORDER"
| "enum_cast_TextureWrapMode MirroredRepeat = GL_MIRRORED_REPEAT"
| "enum_cast_TextureWrapMode Repeat = GL_REPEAT"
| "enum_cast_TextureWrapMode MirrorClampToEdge = GL_MIRROR_CLAMP_TO_EDGE"

text \<open>\<^verbatim>\<open>sizedToBase\<close>: the eight sized formats fall to their shape, any other format is returned as it is.\<close>

fun sizedToBase :: "TextureFormat \<Rightarrow> TextureFormat" where
  "sizedToBase R8u = RED"
| "sizedToBase R32f = RED"
| "sizedToBase RG8u = RG"
| "sizedToBase RG32f = RG"
| "sizedToBase RGB8u = RGB"
| "sizedToBase RGB32f = RGB"
| "sizedToBase RGBA8u = RGBA"
| "sizedToBase RGBA32f = RGBA"
| "sizedToBase format = format"

text \<open>
  The number of colour channels a format names (its letters), the notion the
  specification compares formats by; the program has no such function.
\<close>

fun channelCount :: "TextureFormat \<Rightarrow> nat" where
  "channelCount RED = 1"
| "channelCount R8u = 1"
| "channelCount R32f = 1"
| "channelCount RG = 2"
| "channelCount RG8u = 2"
| "channelCount RG32f = 2"
| "channelCount RGB = 3"
| "channelCount BGR = 3"
| "channelCount RGB8u = 3"
| "channelCount RGB32f = 3"
| "channelCount RGBA = 4"
| "channelCount BGRA = 4"
| "channelCount RGBA8u = 4"
| "channelCount RGBA32f = 4"

fun isSized :: "TextureFormat \<Rightarrow> bool" where
  "isSized R8u = True"
| "isSized RG8u = True"
| "isSized RGB8u = True"
| "isSized RGBA8u = True"
| "isSized R32f = True"
| "isSized RG32f = True"
| "isSized RGB32f = True"
| "isSized RGBA32f = True"
| "isSized format = False"

subsection \<open>Typed views\<close>

text \<open>\<^verbatim>\<open>View<T>\<close>: a pointer and an element count, owning nothing.\<close>

record View =
  first :: addr
  len :: size_t

definition View_empty :: "View \<Rightarrow> bool" where
  "View_empty v = (len v = 0)"

definition View_size :: "View \<Rightarrow> size_t" where
  "View_size v = len v"

definition View_data :: "View \<Rightarrow> addr" where
  "View_data v = first v"

text \<open>
  \<^verbatim>\<open>View<T>::fromObject(const Object& object)\<close>: the reference is the object's
  address, \<open>sizeof_Object\<close> the size of its type.
\<close>

definition fromObject :: "size_t \<Rightarrow> addr \<Rightarrow> View" where
  "fromObject sizeof_Object object =
     (let elementCount = sizeof_Object div sizeof_float
      in \<lparr>first = object, len = elementCount\<rparr>)"

subsection \<open>Objects\<close>

record Buffer =
  Buffer_handle :: handle_t
  Buffer_size :: size_t
  Buffer_type :: BufferType

record Texture =
  Texture_handle :: handle_t
  Texture_format :: TextureFormat

record Program =
  Program_handle :: handle_t

text \<open>\<open>attachedBuffers\<close> is the address of the array of \<^verbatim>\<open>Buffer*\<close> the vertex array owns.\<close>

record VertexArray =
  VertexArray_handle :: handle_t
  attachedBuffers :: addr
  attachedBufferCount :: size_t

text \<open>\<open>Sampler_texture\<close> is a \<^verbatim>\<open>const Texture*\<close>: the address of a texture object, or 0.\<close>

record Sampler =
  Sampler_index :: c_int
  Sampler_texture :: addr

record UniformSetter =
  UniformSetter_program :: addr
  UniformSetter_index :: c_int

text \<open>
  Modelled from the spec: the declarations of the two configuration records are missing
  from the header. The specification gives them as
  \<^verbatim>\<open>TextureSourceData{ format, elementType, pointer }\<close> and
  \<^verbatim>\<open>TextureOptions{ filter:{min, mag}, wrap:{s, t, r} }\<close>; the fields are the ones
  \<^verbatim>\<open>modernglpp.cc\<close> and \<^verbatim>\<open>example.cc\<close> read: \<^verbatim>\<open>desc->format\<close>,
  \<^verbatim>\<open>desc->type\<close>, \<^verbatim>\<open>desc->data\<close>, and \<^verbatim>\<open>options.filter.min\<close>, \<^verbatim>\<open>.mag\<close>,
  \<^verbatim>\<open>options.wrap.s\<close>, \<^verbatim>\<open>.t\<close>, \<^verbatim>\<open>.r\<close>.
\<close>

record TextureSourceData =
  source_format :: TextureFormat
  source_type :: DataType
  source_data :: addr

record TextureOptions =
  filter_min :: TextureFilterMode
  filter_mag :: TextureFilterMode
  wrap_s :: TextureWrapMode
  wrap_t :: TextureWrapMode
  wrap_r :: TextureWrapMode

datatype obj =
    BufferObj Buffer
  | TextureObj Texture
  | ProgramObj Program
  | VertexArrayObj VertexArray

fun sizeof_obj :: "obj \<Rightarrow> size_t" where
  "sizeof_obj (BufferObj b) = 24"
| "sizeof_obj (TextureObj t) = 8"
| "sizeof_obj (ProgramObj p) = 4"
| "sizeof_obj (VertexArrayObj v) = 24"

subsection \<open>The call log\<close>

text \<open>
  A log entry is the name of the entry point called and its arguments in the order of
  the call (\<open>W\<close> a 32-bit value, \<open>B\<close> a \<^verbatim>\<open>GLboolean\<close>, \<open>N\<close> a size or an
  address, \<open>Written\<close> a value written through a pointer, if any). What an entry point
  returns, or writes through a pointer argument, stands in that argument's place, or
  last. \<open>Allocate\<close> and \<open>Free\<close> are the calls through the installed allocator.
\<close>

datatype arg = W "32 word" | B "8 word" | N nat | Written "32 word option"

datatype event = Call string "arg list"

abbreviation GladLoadGL :: "event" where
  "GladLoadGL \<equiv> Call ''gladLoadGL'' []"

abbreviation GlGetError :: "GLenum \<Rightarrow> event" where
  "GlGetError x1 \<equiv> Call ''glGetError'' [W x1]"

abbreviation GlClearColor :: "c_float \<Rightarrow> c_float \<Rightarrow> c_float \<Rightarrow> c_float \<Rightarrow> event" where
  "GlClearColor x1 x2 x3 x4 \<equiv> Call ''glClearColor'' [W x1, W x2, W x3, W x4]"

abbreviation GlClear :: "GLbitfield \<Rightarrow> event" where
  "GlClear x1 \<equiv> Call ''glClear'' [W x1]"

abbreviation GlActiveTexture :: "GLenum \<Rightarrow> event" where
  "GlActiveTexture x1 \<equiv> Call ''glActiveTexture'' [W x1]"

abbreviation GlBindTexture :: "GLenum \<Rightarrow> handle_t \<Rightarrow> event" where
  "GlBindTexture x1 x2 \<equiv> Call ''glBindTexture'' [W x1, W x2]"

abbreviation GlGenTextures :: "GLsizei \<Rightarrow> handle_t \<Rightarrow> event" where
  "GlGenTextures x1 x2 \<equiv> Call ''glGenTextures'' [W x1, W x2]"

abbreviation GlDeleteTextures :: "GLsizei \<Rightarrow> handle_t \<Rightarrow> event" where
  "GlDeleteTextures x1 x2 \<equiv> Call ''glDeleteTextures'' [W x1, W x2]"

abbreviation GlTexImage2D :: "GLenum \<Rightarrow> GLint \<Rightarrow> GLint \<Rightarrow> GLsizei \<Rightarrow> GLsizei \<Rightarrow> GLint \<Rightarrow> GLenum \<Rightarrow> GLenum \<Rightarrow> addr \<Rightarrow> event" where
  "GlTexImage2D x1 x2 x3 x4 x5 x6 x7 x8 x9 \<equiv> Call ''glTexImage2D'' [W x1, W x2, W x3, W x4, W x5, W x6, W x7, W x8, N x9]"

abbreviation GlTexSubImage2D :: "GLenum \<Rightarrow> GLint \<Rightarrow> GLint \<Rightarrow> GLint \<Rightarrow> GLsizei \<Rightarrow> GLsizei \<Rightarrow> GLenum \<Rightarrow> GLenum \<Rightarrow> addr \<Rightarrow> event" where
  "GlTexSubImage2D x1 x2 x3 x4 x5 x6 x7 x8 x9 \<equiv> Call ''glTexSubImage2D'' [W x1, W x2, W x3, W x4, W x5, W x6, W x7, W x8, N x9]"

abbreviation GlTexParameteri :: "GLenum \<Rightarrow> GLenum \<Rightarrow> GLint \<Rightarrow> event" where
  "GlTexParameteri x1 x2 x3 \<equiv> Call ''glTexParameteri'' [W x1, W x2, W x3]"

abbreviation GlGetUniformLocation :: "handle_t \<Rightarrow> addr \<Rightarrow> GLint \<Rightarrow> event" where
  "GlGetUniformLocation x1 x2 x3 \<equiv> Call ''glGetUniformLocation'' [W x1, N x2, W x3]"

abbreviation GlCreateShader :: "GLenum \<Rightarrow> handle_t \<Rightarrow> event" where
  "GlCreateShader x1 x2 \<equiv> Call ''glCreateShader'' [W x1, W x2]"

abbreviation GlShaderSource :: "handle_t \<Rightarrow> GLsizei \<Rightarrow> addr \<Rightarrow> GLint \<Rightarrow> event" where
  "GlShaderSource x1 x2 x3 x4 \<equiv> Call ''glShaderSource'' [W x1, W x2, N x3, W x4]"

abbreviation GlCompileShader :: "handle_t \<Rightarrow> event" where
  "GlCompileShader x1 \<equiv> Call ''glCompileShader'' [W x1]"

abbreviation GlGetShaderiv :: "handle_t \<Rightarrow> GLenum \<Rightarrow> (GLint option) \<Rightarrow> event" where
  "GlGetShaderiv x1 x2 x3 \<equiv> Call ''glGetShaderiv'' [W x1, W x2, Written x3]"

abbreviation GlGetShaderInfoLog :: "handle_t \<Rightarrow> GLsizei \<Rightarrow> GLsizei \<Rightarrow> addr \<Rightarrow> event" where
  "GlGetShaderInfoLog x1 x2 x3 x4 \<equiv> Call ''glGetShaderInfoLog'' [W x1, W x2, W x3, N x4]"

abbreviation GlDeleteShader :: "handle_t \<Rightarrow> event" where
  "GlDeleteShader x1 \<equiv> Call ''glDeleteShader'' [W x1]"

abbreviation GlCreateProgram :: "handle_t \<Rightarrow> event" where
  "GlCreateProgram x1 \<equiv> Call ''glCreateProgram'' [W x1]"

abbreviation GlAttachShader :: "handle_t \<Rightarrow> handle_t \<Rightarrow> event" where
  "GlAttachShader x1 x2 \<equiv> Call ''glAttachShader'' [W x1, W x2]"

abbreviation GlLinkProgram :: "handle_t \<Rightarrow> event" where
  "GlLinkProgram x1 \<equiv> Call ''glLinkProgram'' [W x1]"

abbreviation GlGetProgramiv :: "handle_t \<Rightarrow> GLenum \<Rightarrow> (GLint option) \<Rightarrow> event" where
  "GlGetProgramiv x1 x2 x3 \<equiv> Call ''glGetProgramiv'' [W x1, W x2, Written x3]"

abbreviation GlGetProgramInfoLog :: "handle_t \<Rightarrow> GLsizei \<Rightarrow> GLsizei \<Rightarrow> addr \<Rightarrow> event" where
  "GlGetProgramInfoLog x1 x2 x3 x4 \<equiv> Call ''glGetProgramInfoLog'' [W x1, W x2, W x3, N x4]"

abbreviation GlDeleteProgram :: "handle_t \<Rightarrow> event" where
  "GlDeleteProgram x1 \<equiv> Call ''glDeleteProgram'' [W x1]"

abbreviation GlUseProgram :: "handle_t \<Rightarrow> event" where
  "GlUseProgram x1 \<equiv> Call ''glUseProgram'' [W x1]"

abbreviation GlGenBuffers :: "GLsizei \<Rightarrow> handle_t \<Rightarrow> event" where
  "GlGenBuffers x1 x2 \<equiv> Call ''glGenBuffers'' [W x1, W x2]"

abbreviation GlBindBuffer :: "GLenum \<Rightarrow> handle_t \<Rightarrow> event" where
  "GlBindBuffer x1 x2 \<equiv> Call ''glBindBuffer'' [W x1, W x2]"

abbreviation GlBufferData :: "GLenum \<Rightarrow> size_t \<Rightarrow> addr \<Rightarrow> GLenum \<Rightarrow> event" where
  "GlBufferData x1 x2 x3 x4 \<equiv> Call ''glBufferData'' [W x1, N x2, N x3, W x4]"

abbreviation GlBufferSubData :: "GLenum \<Rightarrow> size_t \<Rightarrow> size_t \<Rightarrow> addr \<Rightarrow> event" where
  "GlBufferSubData x1 x2 x3 x4 \<equiv> Call ''glBufferSubData'' [W x1, N x2, N x3, N x4]"

abbreviation GlDeleteBuffers :: "GLsizei \<Rightarrow> handle_t \<Rightarrow> event" where
  "GlDeleteBuffers x1 x2 \<equiv> Call ''glDeleteBuffers'' [W x1, W x2]"

abbreviation GlGenVertexArrays :: "GLsizei \<Rightarrow> handle_t \<Rightarrow> event" where
  "GlGenVertexArrays x1 x2 \<equiv> Call ''glGenVertexArrays'' [W x1, W x2]"

abbreviation GlBindVertexArray :: "handle_t \<Rightarrow> event" where
  "GlBindVertexArray x1 \<equiv> Call ''glBindVertexArray'' [W x1]"

abbreviation GlDeleteVertexArrays :: "GLsizei \<Rightarrow> handle_t \<Rightarrow> event" where
  "GlDeleteVertexArrays x1 x2 \<equiv> Call ''glDeleteVertexArrays'' [W x1, W x2]"

abbreviation GlDrawArrays :: "GLenum \<Rightarrow> GLint \<Rightarrow> GLsizei \<Rightarrow> event" where
  "GlDrawArrays x1 x2 x3 \<equiv> Call ''glDrawArrays'' [W x1, W x2, W x3]"

abbreviation GlUniform1fv :: "GLint \<Rightarrow> GLsizei \<Rightarrow> addr \<Rightarrow> event" where
  "GlUniform1fv x1 x2 x3 \<equiv> Call ''glUniform1fv'' [W x1, W x2, N x3]"

abbreviation GlUniform2fv :: "GLint \<Rightarrow> GLsizei \<Rightarrow> addr \<Rightarrow> event" where
  "GlUniform2fv x1 x2 x3 \<equiv> Call ''glUniform2fv'' [W x1, W x2, N x3]"

abbreviation GlUniform3fv :: "GLint \<Rightarrow> GLsizei \<Rightarrow> addr \<Rightarrow> event" where
  "GlUniform3fv x1 x2 x3 \<equiv> Call ''glUniform3fv'' [W x1, W x2, N x3]"

abbreviation GlUniform4fv :: "GLint \<Rightarrow> GLsizei \<Rightarrow> addr \<Rightarrow> event" where
  "GlUniform4fv x1 x2 x3 \<equiv> Call ''glUniform4fv'' [W x1, W x2, N x3]"

abbreviation GlUniform1iv :: "GLint \<Rightarrow> GLsizei \<Rightarrow> addr \<Rightarrow> event" where
  "GlUniform1iv x1 x2 x3 \<equiv> Call ''glUniform1iv'' [W x1, W x2, N x3]"

abbreviation GlUniform2iv :: "GLint \<Rightarrow> GLsizei \<Rightarrow> addr \<Rightarrow> event" where
  "GlUniform2iv x1 x2 x3 \<equiv> Call ''glUniform2iv'' [W x1, W x2, N x3]"

abbreviation GlUniform3iv :: "GLint \<Rightarrow> GLsizei \<Rightarrow> addr \<Rightarrow> event" where
  "GlUniform3iv x1 x2 x3 \<equiv> Call ''glUniform3iv'' [W x1, W x2, N x3]"

abbreviation GlUniform4iv :: "GLint \<Rightarrow> GLsizei \<Rightarrow> addr \<Rightarrow> event" where
  "GlUniform4iv x1 x2 x3 \<equiv> Call ''glUniform4iv'' [W x1, W x2, N x3]"

abbreviation GlUniformMatrix3x2fv :: "GLint \<Rightarrow> GLsizei \<Rightarrow> GLboolean \<Rightarrow> addr \<Rightarrow> event" where
  "GlUniformMatrix3x2fv x1 x2 x3 x4 \<equiv> Call ''glUniformMatrix3x2fv'' [W x1, W x2, B x3, N x4]"

abbreviation GlUniformMatrix3fv :: "GLint \<Rightarrow> GLsizei \<Rightarrow> GLboolean \<Rightarrow> addr \<Rightarrow> event" where
  "GlUniformMatrix3fv x1 x2 x3 x4 \<equiv> Call ''glUniformMatrix3fv'' [W x1, W x2, B x3, N x4]"

abbreviation GlUniformMatrix4x2fv :: "GLint \<Rightarrow> GLsizei \<Rightarrow> GLboolean \<Rightarrow> addr \<Rightarrow> event" where
  "GlUniformMatrix4x2fv x1 x2 x3 x4 \<equiv> Call ''glUniformMatrix4x2fv'' [W x1, W x2, B x3, N x4]"

abbreviation GlUniformMatrix4x3fv :: "GLint \<Rightarrow> GLsizei \<Rightarrow> GLboolean \<Rightarrow> addr \<Rightarrow> event" where
  "GlUniformMatrix4x3fv x1 x2 x3 x4 \<equiv> Call ''glUniformMatrix4x3fv'' [W x1, W x2, B x3, N x4]"

abbreviation GlUniformMatrix4fv :: "GLint \<Rightarrow> GLsizei \<Rightarrow> GLboolean \<Rightarrow> addr \<Rightarrow> event" where
  "GlUniformMatrix4fv x1 x2 x3 x4 \<equiv> Call ''glUniformMatrix4fv'' [W x1, W x2, B x3, N x4]"

abbreviation Allocate :: "size_t \<Rightarrow> addr \<Rightarrow> event" where
  "Allocate x1 x2 \<equiv> Call ''Allocate'' [N x1, N x2]"

abbreviation Free :: "addr \<Rightarrow> event" where
  "Free x1 \<equiv> Call ''Free'' [N x1]"

text \<open>
  What the device answers, as a function of the calls made before and of the arguments:
  the error flag \<^verbatim>\<open>glGetError\<close> returns, the name a \<^verbatim>\<open>glGen*\<close> or \<^verbatim>\<open>glCreate*\<close>
  call hands out, the value \<^verbatim>\<open>glGetShaderiv\<close> or \<^verbatim>\<open>glGetProgramiv\<close> writes
  (\<open>None\<close>: it writes nothing), the length an info-log query reports for a buffer of
  the given capacity, and a uniform's location.
\<close>

record driver =
  drv_getError :: "event list \<Rightarrow> GLenum"
  drv_genName :: "event list \<Rightarrow> handle_t"
  drv_getiv :: "event list \<Rightarrow> handle_t \<Rightarrow> GLenum \<Rightarrow> GLint option"
  drv_infoLog :: "event list \<Rightarrow> handle_t \<Rightarrow> GLsizei \<Rightarrow> GLsizei"
  drv_uniformLocation :: "event list \<Rightarrow> handle_t \<Rightarrow> addr \<Rightarrow> GLint"

subsection \<open>The allocator and the program state\<close>

text \<open>
  \<^verbatim>\<open>AllocatorFuncs\<close>: the two function pointers and the user context. The context
  \<^verbatim>\<open>user\<close> points to is the allocator's own state \<open>'u\<close>; a call takes it and
  returns it updated.
\<close>

record 'u AllocatorFuncs =
  allocate :: "'u \<Rightarrow> size_t \<Rightarrow> addr \<times> 'u"
  free :: "'u \<Rightarrow> addr \<Rightarrow> 'u"
  user :: 'u

text \<open>
  \<^verbatim>\<open>defaultAllocator\<close> calls \<^verbatim>\<open>new char[len]\<close> and \<^verbatim>\<open>delete[]\<close>. The C++ heap
  is modelled by its next unused address: every block is fresh, not null and a multiple
  of 16 bytes long, and a freed block is not handed out again.
\<close>

definition defaultAllocator :: "nat AllocatorFuncs" where
  "defaultAllocator =
     \<lparr>allocate = (\<lambda>next len. (next, next + 16 * (len div 16 + 1))),
      free = (\<lambda>next ptr. next),
      user = 4096\<rparr>"

text \<open>
  The state: the file-static \<^verbatim>\<open>allocator\<close> pointer (\<open>None\<close> is \<^verbatim>\<open>nullptr\<close>), the
  device, the call log, the live objects by address, and the pointer-sized memory cells
  the program reads and writes (the arrays of \<^verbatim>\<open>Buffer*\<close>).
\<close>

record 'u state =
  allocator :: "'u AllocatorFuncs option"
  device :: driver
  calls :: "event list"
  objs :: "addr \<rightharpoonup> obj"
  cells :: "addr \<rightharpoonup> addr"

text \<open>
  What ends a run: \<open>Trap\<close> is \<^verbatim>\<open>debug_break()\<close>, the trap instruction
  \<^verbatim>\<open>MGL_ASSERT\<close> and \<^verbatim>\<open>MGL_OPENGL_CHECK\<close> execute (the run is taken to stop
  there, as it does when no debugger resumes it); \<open>BadPointer\<close> is a read or write
  through a null pointer or a pointer to no live object of the type; \<open>SignedOverflow\<close>
  is an \<^verbatim>\<open>int\<close> counter stepping past \<^verbatim>\<open>INT_MAX\<close>. The last two are undefined
  behaviour in the program.
\<close>

datatype error = Trap | BadPointer | SignedOverflow

text \<open>A run that stops does so with an error, in the state it has reached.\<close>

type_synonym 'u stop = "error \<times> 'u state"

text \<open>The state at the end of a run, stopped or not.\<close>

definition final :: "'u stop + 'u state \<Rightarrow> 'u state" where
  "final r = (case r of Inl (e, s) \<Rightarrow> s | Inr s \<Rightarrow> s)"

definition final_of :: "'u stop + ('a \<times> 'u state) \<Rightarrow> 'u state" where
  "final_of r = (case r of Inl (e, s) \<Rightarrow> s | Inr (x, s) \<Rightarrow> s)"

text \<open>What a run returns, if it returns.\<close>

definition value_of :: "'u stop + ('a \<times> 'u state) \<Rightarrow> 'a option" where
  "value_of r = (case r of Inl e \<Rightarrow> None | Inr (x, s) \<Rightarrow> Some x)"

definition bindE :: "'e + 'a \<Rightarrow> ('a \<Rightarrow> 'e + 'b) \<Rightarrow> 'e + 'b" where
  "bindE m f = (case m of Inl e \<Rightarrow> Inl e | Inr x \<Rightarrow> f x)"

definition call :: "event \<Rightarrow> 'u state \<Rightarrow> 'u state" where
  "call e s = s\<lparr>calls := calls s @ [e]\<rparr>"

subsection \<open>Device calls that return a value\<close>

definition glGetError :: "'u state \<Rightarrow> GLenum \<times> 'u state" where
  "glGetError s = (let e = drv_getError (device s) (calls s) in (e, call (GlGetError e) s))"

definition glGenName :: "(handle_t \<Rightarrow> event) \<Rightarrow> 'u state \<Rightarrow> handle_t \<times> 'u state" where
  "glGenName entry s = (let h = drv_genName (device s) (calls s) in (h, call (entry h) s))"

definition glGetiv ::
  "(handle_t \<Rightarrow> GLenum \<Rightarrow> GLint option \<Rightarrow> event) \<Rightarrow> handle_t \<Rightarrow> GLenum \<Rightarrow> GLint \<Rightarrow> 'u state
     \<Rightarrow> GLint \<times> 'u state" where
  "glGetiv entry h pname params s =
     (let w = drv_getiv (device s) (calls s) h pname
      in (case w of None \<Rightarrow> params | Some v \<Rightarrow> v, call (entry h pname w) s))"

definition glGetInfoLog ::
  "(handle_t \<Rightarrow> GLsizei \<Rightarrow> GLsizei \<Rightarrow> addr \<Rightarrow> event) \<Rightarrow> handle_t \<Rightarrow> GLsizei \<Rightarrow> addr \<Rightarrow> 'u state
     \<Rightarrow> GLsizei \<times> 'u state" where
  "glGetInfoLog entry h bufSize infoLog s =
     (let n = drv_infoLog (device s) (calls s) h bufSize
      in (n, call (entry h bufSize n infoLog) s))"

definition glGetUniformLocation :: "handle_t \<Rightarrow> addr \<Rightarrow> 'u state \<Rightarrow> GLint \<times> 'u state" where
  "glGetUniformLocation h name s =
     (let l = drv_uniformLocation (device s) (calls s) h name
      in (l, call (GlGetUniformLocation h name l) s))"

subsection \<open>Assertions and the allocator\<close>

definition glGetErrorString :: "'u state \<Rightarrow> string option \<times> 'u state" where
  "glGetErrorString s =
     (case glGetError s of (e, s') \<Rightarrow>
        (if e = GL_INVALID_ENUM then Some ''GL_INVALID_ENUM''
         else if e = GL_INVALID_VALUE then Some ''GL_INVALID_VALUE''
         else if e = GL_INVALID_OPERATION then Some ''GL_INVALID_OPERATION''
         else if e = GL_OUT_OF_MEMORY then Some ''GL_OUT_OF_MEMORY''
         else None, s'))"

definition MGL_ASSERT :: "bool \<Rightarrow> 'u state \<Rightarrow> 'u stop + 'u state" where
  "MGL_ASSERT expr s = (if \<not> expr then Inl (Trap, s) else Inr s)"

definition MGL_OPENGL_CHECK :: "'u state \<Rightarrow> 'u stop + 'u state" where
  "MGL_OPENGL_CHECK s =
     (case glGetErrorString s of (err, s') \<Rightarrow> if err \<noteq> None then Inl (Trap, s') else Inr s')"

text \<open>\<^verbatim>\<open>allocator->allocate(allocator->user, size)\<close> and \<^verbatim>\<open>allocator->free(allocator->user, ptr)\<close>.\<close>

definition allocator_allocate :: "size_t \<Rightarrow> 'u state \<Rightarrow> 'u stop + (addr \<times> 'u state)" where
  "allocator_allocate bytes s =
     (case allocator s of
        None \<Rightarrow> Inl (BadPointer, s)
      | Some a \<Rightarrow>
          (case allocate a (user a) bytes of (ptr, u) \<Rightarrow>
             Inr (ptr, call (Allocate bytes ptr) (s\<lparr>allocator := Some (a\<lparr>user := u\<rparr>)\<rparr>))))"

definition allocator_free :: "addr \<Rightarrow> 'u state \<Rightarrow> 'u stop + 'u state" where
  "allocator_free ptr s =
     (case allocator s of
        None \<Rightarrow> Inl (BadPointer, s)
      | Some a \<Rightarrow>
          Inr (call (Free ptr) (s\<lparr>allocator := Some (a\<lparr>user := free a (user a) ptr\<rparr>)\<rparr>)))"

text \<open>
  \<^verbatim>\<open>newObject<T>(args...)\<close>: storage of \<^verbatim>\<open>sizeof (T)\<close> bytes from the allocator, the
  object constructed in it. The result of \<^verbatim>\<open>allocate\<close> is not checked; constructing
  at \<^verbatim>\<open>nullptr\<close> is a write through a null pointer.
\<close>

definition newObject :: "obj \<Rightarrow> 'u state \<Rightarrow> 'u stop + (addr \<times> 'u state)" where
  "newObject object s =
     bindE (allocator_allocate (sizeof_obj object) s) (\<lambda>(ptr, s1).
       if ptr = 0 then Inl (BadPointer, s1)
       else Inr (ptr, s1\<lparr>objs := (objs s1)(ptr \<mapsto> object)\<rparr>))"

text \<open>\<^verbatim>\<open>deleteObject<T>(ptr)\<close>, with \<open>destructor\<close> for \<^verbatim>\<open>ptr->~T()\<close>.\<close>

definition deleteObject ::
  "(addr \<Rightarrow> 'u state \<Rightarrow> 'u stop + 'u state) \<Rightarrow> addr \<Rightarrow> 'u state \<Rightarrow> 'u stop + 'u state" where
  "deleteObject destructor ptr s =
     (if ptr \<noteq> 0 then bindE (destructor ptr s) (\<lambda>s1. allocator_free ptr s1)
      else Inr s)"

text \<open>Reading \<^verbatim>\<open>*this\<close>: the object of the method's class that lives at the address.\<close>

definition the_Buffer :: "'u state \<Rightarrow> addr \<Rightarrow> 'u stop + Buffer" where
  "the_Buffer s this = (case objs s this of Some (BufferObj b) \<Rightarrow> Inr b | _ \<Rightarrow> Inl (BadPointer, s))"

definition the_Texture :: "'u state \<Rightarrow> addr \<Rightarrow> 'u stop + Texture" where
  "the_Texture s this = (case objs s this of Some (TextureObj t) \<Rightarrow> Inr t | _ \<Rightarrow> Inl (BadPointer, s))"

definition the_Program :: "'u state \<Rightarrow> addr \<Rightarrow> 'u stop + Program" where
  "the_Program s this = (case objs s this of Some (ProgramObj p) \<Rightarrow> Inr p | _ \<Rightarrow> Inl (BadPointer, s))"

definition the_VertexArray :: "'u state \<Rightarrow> addr \<Rightarrow> 'u stop + VertexArray" where
  "the_VertexArray s this =
     (case objs s this of Some (VertexArrayObj v) \<Rightarrow> Inr v | _ \<Rightarrow> Inl (BadPointer, s))"

subsection \<open>Uniform upload\<close>

text \<open>
  The \<^verbatim>\<open>set_uniform_*\<close> primitives. The \<^verbatim>\<open>Program&\<close> argument is the address of
  the program object; no primitive reads it.
\<close>

definition set_uniform_f1 :: "addr \<Rightarrow> c_int \<Rightarrow> View \<Rightarrow> 'u state \<Rightarrow> 'u stop + 'u state" where
  "set_uniform_f1 p index' data s =
     bindE (MGL_ASSERT (View_size data = 1) s) (\<lambda>s1.
       Inr (call (GlUniform1fv index' 1 (View_data data)) s1))"

definition set_uniform_f2 :: "addr \<Rightarrow> c_int \<Rightarrow> View \<Rightarrow> 'u state \<Rightarrow> 'u stop + 'u state" where
  "set_uniform_f2 p index' data s =
     bindE (MGL_ASSERT (View_size data = 2) s) (\<lambda>s1.
       Inr (call (GlUniform2fv index' 1 (View_data data)) s1))"

definition set_uniform_f3 :: "addr \<Rightarrow> c_int \<Rightarrow> View \<Rightarrow> 'u state \<Rightarrow> 'u stop + 'u state" where
  "set_uniform_f3 p index' data s =
     bindE (MGL_ASSERT (View_size data = 3) s) (\<lambda>s1.
       Inr (call (GlUniform3fv index' 1 (View_data data)) s1))"

definition set_uniform_f4 :: "addr \<Rightarrow> c_int \<Rightarrow> View \<Rightarrow> 'u state \<Rightarrow> 'u stop + 'u state" where
  "set_uniform_f4 p index' data s =
     bindE (MGL_ASSERT (View_size data = 4) s) (\<lambda>s1.
       Inr (call (GlUniform4fv index' 1 (View_data data)) s1))"

definition set_uniform_i1 :: "addr \<Rightarrow> c_int \<Rightarrow> View \<Rightarrow> 'u state \<Rightarrow> 'u stop + 'u state" where
  "set_uniform_i1 p index' data s =
     bindE (MGL_ASSERT (View_size data = 1) s) (\<lambda>s1.
       Inr (call (GlUniform1iv index' 1 (View_data data)) s1))"

definition set_uniform_i2 :: "addr \<Rightarrow> c_int \<Rightarrow> View \<Rightarrow> 'u state \<Rightarrow> 'u stop + 'u state" where
  "set_uniform_i2 p index' data s =
     bindE (MGL_ASSERT (View_size data = 2) s) (\<lambda>s1.
       Inr (call (GlUniform2iv index' 1 (View_data data)) s1))"

definition set_uniform_i3 :: "addr \<Rightarrow> c_int \<Rightarrow> View \<Rightarrow> 'u state \<Rightarrow> 'u stop + 'u state" where
  "set_uniform_i3 p index' data s =
     bindE (MGL_ASSERT (View_size data = 3) s) (\<lambda>s1.
       Inr (call (GlUniform3iv index' 1 (View_data data)) s1))"

definition set_uniform_i4 :: "addr \<Rightarrow> c_int \<Rightarrow> View \<Rightarrow> 'u state \<Rightarrow> 'u stop + 'u state" where
  "set_uniform_i4 p index' data s =
     bindE (MGL_ASSERT (View_size data = 4) s) (\<lambda>s1.
       Inr (call (GlUniform4iv index' 1 (View_data data)) s1))"

definition set_uniform_m3x2 :: "addr \<Rightarrow> c_int \<Rightarrow> View \<Rightarrow> 'u state \<Rightarrow> 'u stop + 'u state" where
  "set_uniform_m3x2 p index' data s =
     bindE (MGL_ASSERT (View_size data = 3 * 2) s) (\<lambda>s1.
       Inr (call (GlUniformMatrix3x2fv index' 1 0 (View_data data)) s1))"

definition set_uniform_m3x3 :: "addr \<Rightarrow> c_int \<Rightarrow> View \<Rightarrow> 'u state \<Rightarrow> 'u stop + 'u state" where
  "set_uniform_m3x3 p index' data s =
     bindE (MGL_ASSERT (View_size data = 3 * 3) s) (\<lambda>s1.
       Inr (call (GlUniformMatrix3fv index' 1 0 (View_data data)) s1))"

definition set_uniform_m4x2 :: "addr \<Rightarrow> c_int \<Rightarrow> View \<Rightarrow> 'u state \<Rightarrow> 'u stop + 'u state" where
  "set_uniform_m4x2 p index' data s =
     bindE (MGL_ASSERT (View_size data = 4 * 2) s) (\<lambda>s1.
       Inr (call (GlUniformMatrix4x2fv index' 1 0 (View_data data)) s1))"

definition set_uniform_m4x3 :: "addr \<Rightarrow> c_int \<Rightarrow> View \<Rightarrow> 'u state \<Rightarrow> 'u stop + 'u state" where
  "set_uniform_m4x3 p index' data s =
     bindE (MGL_ASSERT (View_size data = 4 * 3) s) (\<lambda>s1.
       Inr (call (GlUniformMatrix4x3fv index' 1 0 (View_data data)) s1))"

definition set_uniform_m4x4 :: "addr \<Rightarrow> c_int \<Rightarrow> View \<Rightarrow> 'u state \<Rightarrow> 'u stop + 'u state" where
  "set_uniform_m4x4 p index' data s =
     bindE (MGL_ASSERT (View_size data = 4 * 4) s) (\<lambda>s1.
       Inr (call (GlUniformMatrix4fv index' 1 0 (View_data data)) s1))"

text \<open>
  The specialisations of \<^verbatim>\<open>Uniform<T>\<close> and \<^verbatim>\<open>set_uniform<Sampler>\<close>. The argument
  \<open>value\<close> is the \<^verbatim>\<open>const T&\<close>, the address of the value; \<^verbatim>\<open>&value.index\<close> is the
  address of a sampler's first member, the sampler's own address.
\<close>

definition set_uniform_Sampler :: "addr \<Rightarrow> c_int \<Rightarrow> addr \<Rightarrow> 'u state \<Rightarrow> 'u stop + 'u state" where
  "set_uniform_Sampler p index' value s =
     set_uniform_i1 p index' \<lparr>first = value + 0, len = 1\<rparr> s"

definition Uniform_float :: "addr \<Rightarrow> c_int \<Rightarrow> addr \<Rightarrow> 'u state \<Rightarrow> 'u stop + 'u state" where
  "Uniform_float p index' value s = set_uniform_f1 p index' \<lparr>first = value, len = 1\<rparr> s"

definition Uniform_int :: "addr \<Rightarrow> c_int \<Rightarrow> addr \<Rightarrow> 'u state \<Rightarrow> 'u stop + 'u state" where
  "Uniform_int p index' value s = set_uniform_i1 p index' \<lparr>first = value, len = 1\<rparr> s"

definition Uniform_Sampler :: "addr \<Rightarrow> c_int \<Rightarrow> addr \<Rightarrow> 'u state \<Rightarrow> 'u stop + 'u state" where
  "Uniform_Sampler p index' value s = set_uniform_Sampler p index' value s"

text \<open>
  Modelled from the spec: the value types of \<^verbatim>\<open>example.cc\<close> come from the glm
  library, whose headers are not among the sources. As the specification requires of a
  value passed to \<open>fromObject\<close>, their storage is a flat sequence of floats with no
  padding: \<^verbatim>\<open>glm::vecN\<close> is \<open>N\<close> floats and \<^verbatim>\<open>glm::matN\<close> is \<open>N * N\<close>
  floats.
\<close>

definition sizeof_vec :: "nat \<Rightarrow> size_t" where
  "sizeof_vec n = n * sizeof_float"

definition sizeof_mat :: "nat \<Rightarrow> size_t" where
  "sizeof_mat n = n * n * sizeof_float"

definition Uniform_vec2 :: "addr \<Rightarrow> c_int \<Rightarrow> addr \<Rightarrow> 'u state \<Rightarrow> 'u stop + 'u state" where
  "Uniform_vec2 p index' matrix s =
     set_uniform_f2 p index' (fromObject (sizeof_vec 2) matrix) s"

definition Uniform_vec3 :: "addr \<Rightarrow> c_int \<Rightarrow> addr \<Rightarrow> 'u state \<Rightarrow> 'u stop + 'u state" where
  "Uniform_vec3 p index' matrix s =
     set_uniform_f3 p index' (fromObject (sizeof_vec 3) matrix) s"

definition Uniform_vec4 :: "addr \<Rightarrow> c_int \<Rightarrow> addr \<Rightarrow> 'u state \<Rightarrow> 'u stop + 'u state" where
  "Uniform_vec4 p index' matrix s =
     set_uniform_f4 p index' (fromObject (sizeof_vec 4) matrix) s"

definition Uniform_mat3 :: "addr \<Rightarrow> c_int \<Rightarrow> addr \<Rightarrow> 'u state \<Rightarrow> 'u stop + 'u state" where
  "Uniform_mat3 p index' matrix s =
     set_uniform_m3x3 p index' (fromObject (sizeof_mat 3) matrix) s"

definition Uniform_mat4 :: "addr \<Rightarrow> c_int \<Rightarrow> addr \<Rightarrow> 'u state \<Rightarrow> 'u stop + 'u state" where
  "Uniform_mat4 p index' matrix s =
     set_uniform_m4x4 p index' (fromObject (sizeof_mat 4) matrix) s"

text \<open>
  The template \<^verbatim>\<open>Uniform<T>\<close> over the value types it is specialised for, and
  \<^verbatim>\<open>UniformSetter::operator=\<close>, which calls it.
\<close>

datatype ValueType = T_float | T_int | T_Sampler | T_vec2 | T_vec3 | T_vec4 | T_mat3 | T_mat4

fun Uniform_T :: "ValueType \<Rightarrow> addr \<Rightarrow> c_int \<Rightarrow> addr \<Rightarrow> 'u state \<Rightarrow> 'u stop + 'u state" where
  "Uniform_T T_float = Uniform_float"
| "Uniform_T T_int = Uniform_int"
| "Uniform_T T_Sampler = Uniform_Sampler"
| "Uniform_T T_vec2 = Uniform_vec2"
| "Uniform_T T_vec3 = Uniform_vec3"
| "Uniform_T T_vec4 = Uniform_vec4"
| "Uniform_T T_mat3 = Uniform_mat3"
| "Uniform_T T_mat4 = Uniform_mat4"

definition UniformSetter_assign ::
  "ValueType \<Rightarrow> UniformSetter \<Rightarrow> addr \<Rightarrow> 'u state \<Rightarrow> 'u stop + 'u state" where
  "UniformSetter_assign T this value s =
     Uniform_T T (UniformSetter_program this) (UniformSetter_index this) value s"

text \<open>
  What the specification says of each value type: its arity, the primitive that matches
  it, and the device call that primitive makes.
\<close>

fun arity :: "ValueType \<Rightarrow> nat" where
  "arity T_float = 1"
| "arity T_int = 1"
| "arity T_Sampler = 1"
| "arity T_vec2 = 2"
| "arity T_vec3 = 3"
| "arity T_vec4 = 4"
| "arity T_mat3 = 9"
| "arity T_mat4 = 16"

fun primitive :: "ValueType \<Rightarrow> addr \<Rightarrow> c_int \<Rightarrow> View \<Rightarrow> 'u state \<Rightarrow> 'u stop + 'u state" where
  "primitive T_float = set_uniform_f1"
| "primitive T_int = set_uniform_i1"
| "primitive T_Sampler = set_uniform_i1"
| "primitive T_vec2 = set_uniform_f2"
| "primitive T_vec3 = set_uniform_f3"
| "primitive T_vec4 = set_uniform_f4"
| "primitive T_mat3 = set_uniform_m3x3"
| "primitive T_mat4 = set_uniform_m4x4"

fun upload :: "ValueType \<Rightarrow> c_int \<Rightarrow> addr \<Rightarrow> event" where
  "upload T_float i a = GlUniform1fv i 1 a"
| "upload T_int i a = GlUniform1iv i 1 a"
| "upload T_Sampler i a = GlUniform1iv i 1 a"
| "upload T_vec2 i a = GlUniform2fv i 1 a"
| "upload T_vec3 i a = GlUniform3fv i 1 a"
| "upload T_vec4 i a = GlUniform4fv i 1 a"
| "upload T_mat3 i a = GlUniformMatrix3fv i 1 0 a"
| "upload T_mat4 i a = GlUniformMatrix4fv i 1 0 a"

subsection \<open>Initialisation and clearing\<close>

definition init :: "'u AllocatorFuncs option \<Rightarrow> 'u state \<Rightarrow> 'u state" where
  "init allocator' s = call GladLoadGL (s\<lparr>allocator := allocator'\<rparr>)"

text \<open>
  \<^verbatim>\<open>clearColour ? GL_COLOR_BUFFER_BIT : 0 | clearDepth ? GL_DEPTH_BUFFER_BIT : 0\<close>:
  \<^verbatim>\<open>|\<close> binds tighter than \<^verbatim>\<open>?:\<close>, and \<^verbatim>\<open>?:\<close> groups to the right, so the
  expression is \<^verbatim>\<open>clearColour ? GL_COLOR_BUFFER_BIT : ((0 | clearDepth) ? GL_DEPTH_BUFFER_BIT : 0)\<close>,
  with \<^verbatim>\<open>clearDepth\<close> promoted to \<^verbatim>\<open>int\<close>.
\<close>

definition clear_flags :: "bool \<Rightarrow> bool \<Rightarrow> GLbitfield" where
  "clear_flags clearColour clearDepth =
     (if clearColour then GL_COLOR_BUFFER_BIT
      else if ((0 :: c_int) OR (if clearDepth then 1 else 0)) \<noteq> 0 then GL_DEPTH_BUFFER_BIT
      else 0)"

abbreviation float_1 :: c_float where "float_1 \<equiv> 0x3F800000"

definition clear :: "c_float \<Rightarrow> c_float \<Rightarrow> c_float \<Rightarrow> bool \<Rightarrow> bool \<Rightarrow> 'u state \<Rightarrow> 'u state" where
  "clear r g b clearColour clearDepth s =
     (let s1 = call (GlClearColor r g b float_1) s
      in call (GlClear (clear_flags clearColour clearDepth)) s1)"

subsection \<open>Sampler\<close>

text \<open>
  \<^verbatim>\<open>Sampler::Sampler(int slotIndex) : index(slotIndex) {}\<close> initialises \<^verbatim>\<open>index\<close>
  only, and the class gives \<^verbatim>\<open>texture\<close> no default initialiser: the member keeps what
  the storage the sampler is constructed in holds. \<open>storage\<close> is that storage, read as a
  sampler.
\<close>

definition Sampler_ctor :: "Sampler \<Rightarrow> c_int \<Rightarrow> Sampler" where
  "Sampler_ctor storage slotIndex = storage\<lparr>Sampler_index := slotIndex\<rparr>"

definition Sampler_setTexture :: "Sampler \<Rightarrow> addr \<Rightarrow> Sampler" where
  "Sampler_setTexture this texture = this\<lparr>Sampler_texture := texture\<rparr>"

definition Sampler_bind :: "Sampler \<Rightarrow> 'u state \<Rightarrow> 'u stop + 'u state" where
  "Sampler_bind this s =
     (let s1 = call (GlActiveTexture (GL_TEXTURE0 + Sampler_index this)) s
      in bindE (if Sampler_texture this \<noteq> 0
                then bindE (the_Texture s1 (Sampler_texture this)) (\<lambda>t. Inr (Texture_handle t))
                else Inr 0) (\<lambda>h.
           MGL_OPENGL_CHECK (call (GlBindTexture GL_TEXTURE_2D h) s1)))"

subsection \<open>Program\<close>

text \<open>\<^verbatim>\<open>(size_t) errLen\<close>: a signed 32-bit length converted to \<^verbatim>\<open>size_t\<close>.\<close>

definition size_t_of_int :: "GLsizei \<Rightarrow> size_t" where
  "size_t_of_int n = nat (sint n mod 2 ^ 64)"

definition Program_uniform :: "addr \<Rightarrow> View \<Rightarrow> 'u state \<Rightarrow> 'u stop + (UniformSetter \<times> 'u state)" where
  "Program_uniform this name s =
     bindE (the_Program s this) (\<lambda>p.
       case glGetUniformLocation (Program_handle p) (View_data name) s of (l, s1) \<Rightarrow>
         Inr (\<lparr>UniformSetter_program = this, UniformSetter_index = l\<rparr>, s1))"

definition Program_subscript :: "addr \<Rightarrow> View \<Rightarrow> 'u state \<Rightarrow> 'u stop + (UniformSetter \<times> 'u state)" where
  "Program_subscript this name s =
     bindE (the_Program s this) (\<lambda>p.
       case glGetUniformLocation (Program_handle p) (View_data name) s of (l, s1) \<Rightarrow>
         Inr (\<lparr>UniformSetter_program = this, UniformSetter_index = l\<rparr>, s1))"

text \<open>
  The \<^verbatim>\<open>compile\<close> lambda of \<^verbatim>\<open>Program::make\<close>. It returns the shader name, 0 after a
  failed compilation, and the caller's \<^verbatim>\<open>result\<close> view, which it takes by reference.
\<close>

definition compile ::
  "View \<Rightarrow> GLenum \<Rightarrow> View \<Rightarrow> 'u state \<Rightarrow> 'u stop + ((handle_t \<times> View) \<times> 'u state)" where
  "compile source shaderType result s =
     (let sources = View_data source;
          length' = (word_of_nat (View_size source) :: GLint);
          successFlag0 = GL_FALSE
      in case glGenName (GlCreateShader shaderType) s of (sh, s1) \<Rightarrow>
         let s2 = call (GlShaderSource sh 1 sources length') s1;
             s3 = call (GlCompileShader sh) s2
         in case glGetiv GlGetShaderiv sh GL_COMPILE_STATUS successFlag0 s3 of (successFlag, s4) \<Rightarrow>
            bindE (MGL_OPENGL_CHECK s4) (\<lambda>s5.
              case (if successFlag = GL_FALSE then
                      (case (if \<not> View_empty result then
                               (case glGetInfoLog GlGetShaderInfoLog sh
                                       (word_of_nat (View_size result - 1)) (View_data result) s5
                                of (errLen, s6) \<Rightarrow>
                                  (\<lparr>first = View_data result, len = size_t_of_int errLen\<rparr>, s6))
                             else (result, s5))
                       of (result1, s7) \<Rightarrow> (0, result1, call (GlDeleteShader sh) s7))
                    else (sh, result, s5))
              of (sh1, result2, s8) \<Rightarrow>
                bindE (MGL_OPENGL_CHECK s8) (\<lambda>s9. Inr ((sh1, result2), s9))))"

text \<open>
  \<^verbatim>\<open>Program::make\<close> returns the address of the new program, 0 for \<^verbatim>\<open>nullptr\<close>, and
  the \<^verbatim>\<open>result\<close> view. The fragment stage is compiled only when the vertex stage gave
  a shader (\<^verbatim>\<open>||\<close> evaluates its right operand only when the left is false).
\<close>

definition Program_make ::
  "View \<Rightarrow> View \<Rightarrow> View \<Rightarrow> 'u state \<Rightarrow> 'u stop + ((addr \<times> View) \<times> 'u state)" where
  "Program_make vertexShaderSource fragShaderSource result s =
     (let successFlag0 = GL_FALSE
      in bindE (compile vertexShaderSource GL_VERTEX_SHADER result s) (\<lambda>((vs, result1), s1).
         if vs = 0 then Inr ((0, result1), s1)
         else bindE (compile fragShaderSource GL_FRAGMENT_SHADER result1 s1) (\<lambda>((fs, result2), s2).
           if fs = 0 then Inr ((0, result2), s2)
           else case glGenName GlCreateProgram s2 of (p, s3) \<Rightarrow>
             let s4 = call (GlAttachShader p vs) s3;
                 s5 = call (GlAttachShader p fs) s4;
                 s6 = call (GlDeleteShader vs) s5;
                 s7 = call (GlDeleteShader fs) s6;
                 s8 = call (GlLinkProgram p) s7
             in case glGetiv GlGetProgramiv p GL_LINK_STATUS successFlag0 s8 of (successFlag, s9) \<Rightarrow>
                bindE (MGL_OPENGL_CHECK s9) (\<lambda>s10.
                  if successFlag = GL_FALSE then
                    (case (if \<not> View_empty result2 then
                             (case glGetInfoLog GlGetProgramInfoLog p
                                     (word_of_nat (View_size result2 - 1)) (View_data result2) s10
                              of (errLen, s11) \<Rightarrow>
                                (\<lparr>first = View_data result2, len = size_t_of_int errLen\<rparr>, s11))
                           else (result2, s10))
                     of (result3, s12) \<Rightarrow> Inr ((0, result3), call (GlDeleteProgram p) s12))
                  else
                    bindE (MGL_OPENGL_CHECK s10) (\<lambda>s13.
                      bindE (newObject (ProgramObj \<lparr>Program_handle = p\<rparr>) s13) (\<lambda>(ptr, s14).
                        Inr ((ptr, result2), s14)))))))"

text \<open>A destructor ends the object's life: no object lives at the address afterwards.\<close>

definition Program_dtor :: "addr \<Rightarrow> 'u state \<Rightarrow> 'u stop + 'u state" where
  "Program_dtor this s =
     bindE (the_Program s this) (\<lambda>p.
       let s1 = call (GlDeleteProgram (Program_handle p)) s
       in Inr (s1\<lparr>objs := (objs s1)(this := None)\<rparr>))"

definition Program_use :: "addr \<Rightarrow> 'u state \<Rightarrow> 'u stop + 'u state" where
  "Program_use this s =
     bindE (the_Program s this) (\<lambda>p. Inr (call (GlUseProgram (Program_handle p)) s))"

subsection \<open>Buffer\<close>

definition Buffer_make :: "BufferType \<Rightarrow> size_t \<Rightarrow> addr \<Rightarrow> bool \<Rightarrow> 'u state \<Rightarrow> 'u stop + (addr \<times> 'u state)" where
  "Buffer_make type' size' data dynamic s =
     (case glGenName (GlGenBuffers 1) s of (handle, s1) \<Rightarrow>
        let s2 = call (GlBindBuffer (enum_cast_BufferType type') handle) s1;
            s3 = call (GlBufferData (enum_cast_BufferType type') size' data
                         (if dynamic then GL_DYNAMIC_DRAW else GL_STATIC_DRAW)) s2
        in bindE (MGL_OPENGL_CHECK s3) (\<lambda>s4.
             newObject (BufferObj \<lparr>Buffer_handle = handle, Buffer_size = size',
                                   Buffer_type = type'\<rparr>) s4))"

definition Buffer_dtor :: "addr \<Rightarrow> 'u state \<Rightarrow> 'u stop + 'u state" where
  "Buffer_dtor this s =
     bindE (the_Buffer s this) (\<lambda>b.
       let s1 = call (GlDeleteBuffers 1 (Buffer_handle b)) s
       in Inr (s1\<lparr>objs := (objs s1)(this := None)\<rparr>))"

definition Buffer_bind :: "addr \<Rightarrow> 'u state \<Rightarrow> 'u stop + 'u state" where
  "Buffer_bind this s =
     bindE (the_Buffer s this) (\<lambda>b.
       MGL_OPENGL_CHECK (call (GlBindBuffer (enum_cast_BufferType (Buffer_type b)) (Buffer_handle b)) s))"

definition Buffer_write :: "addr \<Rightarrow> addr \<Rightarrow> size_t \<Rightarrow> size_t \<Rightarrow> 'u state \<Rightarrow> 'u stop + 'u state" where
  "Buffer_write this data len' offset s =
     bindE (the_Buffer s this) (\<lambda>b.
       let s1 = call (GlBindBuffer (enum_cast_BufferType (Buffer_type b)) (Buffer_handle b)) s;
           s2 = call (GlBufferSubData (enum_cast_BufferType (Buffer_type b)) offset len' data) s1
       in MGL_OPENGL_CHECK s2)"

text \<open>The template \<^verbatim>\<open>Buffer::write(View<const ArrayType>, size_t)\<close> of the header.\<close>

definition Buffer_write_array :: "addr \<Rightarrow> size_t \<Rightarrow> View \<Rightarrow> size_t \<Rightarrow> 'u state \<Rightarrow> 'u stop + 'u state" where
  "Buffer_write_array this sizeof_ArrayType array offset s =
     Buffer_write this (View_data array) ((View_size array * sizeof_ArrayType) mod 2 ^ 64) offset s"

subsection \<open>VertexArray\<close>

text \<open>
  \<^verbatim>\<open>for (int i = 0; i < buffers.size(); i++) vao->attachedBuffers[i] = buffers[i];\<close>
  The third argument is \<open>i\<close>, the fourth the number of iterations left,
  \<^verbatim>\<open>buffers.size() - i\<close>. Element \<open>i\<close> of an array of pointers is the cell at
  \<open>sizeof_pointer * i\<close> bytes from its start.
\<close>

fun attach_loop :: "addr \<Rightarrow> View \<Rightarrow> nat \<Rightarrow> nat \<Rightarrow> 'u state \<Rightarrow> 'u stop + 'u state" where
  "attach_loop vao buffers i 0 s = Inr s"
| "attach_loop vao buffers i (Suc k) s =
     (case cells s (View_data buffers + sizeof_pointer * i) of
        None \<Rightarrow> Inl (BadPointer, s)
      | Some buffer \<Rightarrow>
          bindE (the_VertexArray s vao) (\<lambda>v.
            if attachedBuffers v = 0 then Inl (BadPointer, s)
            else
              let s1 = s\<lparr>cells := (cells s)(attachedBuffers v + sizeof_pointer * i \<mapsto> buffer)\<rparr>
              in if i = INT_MAX then Inl (SignedOverflow, s1)
                 else attach_loop vao buffers (i + 1) k s1))"

text \<open>
  \<open>callback\<close> is the caller's \<^verbatim>\<open>ConfigureCallback\<close>: any code, so any state
  transformer. The array of links is allocated while the arguments of \<^verbatim>\<open>newObject\<close>
  are evaluated, before the storage of the object.
\<close>

definition VertexArray_make ::
  "View \<Rightarrow> (handle_t \<Rightarrow> View \<Rightarrow> 'u state \<Rightarrow> 'u stop + 'u state) \<Rightarrow> 'u state
     \<Rightarrow> 'u stop + (addr \<times> 'u state)" where
  "VertexArray_make buffers callback s =
     (case glGenName (GlGenVertexArrays 1) s of (handle, s1) \<Rightarrow>
        let s2 = call (GlBindVertexArray handle) s1
        in bindE (MGL_OPENGL_CHECK s2) (\<lambda>s3.
           bindE (callback handle buffers s3) (\<lambda>s4.
           bindE (MGL_OPENGL_CHECK s4) (\<lambda>s5.
           bindE (allocator_allocate ((View_size buffers * sizeof_pointer) mod 2 ^ 64) s5) (\<lambda>(links, s6).
           bindE (newObject (VertexArrayObj \<lparr>VertexArray_handle = handle, attachedBuffers = links,
                                             attachedBufferCount = View_size buffers\<rparr>) s6) (\<lambda>(vao, s7).
           bindE (attach_loop vao buffers 0 (View_size buffers) s7) (\<lambda>s8.
             Inr (vao, s8))))))))"

definition VertexArray_getBuffers :: "addr \<Rightarrow> 'u state \<Rightarrow> 'u stop + (View \<times> 'u state)" where
  "VertexArray_getBuffers this s =
     bindE (the_VertexArray s this) (\<lambda>v.
       Inr (\<lparr>first = attachedBuffers v, len = attachedBufferCount v\<rparr>, s))"

text \<open>
  \<^verbatim>\<open>for (auto* buffer : getBuffers()) buffer->~Buffer();\<close> The first argument is the
  iterator, the second the number of elements between it and \<^verbatim>\<open>end()\<close>.
\<close>

fun destroy_loop :: "addr \<Rightarrow> nat \<Rightarrow> 'u state \<Rightarrow> 'u stop + 'u state" where
  "destroy_loop it 0 s = Inr s"
| "destroy_loop it (Suc k) s =
     (case cells s it of
        None \<Rightarrow> Inl (BadPointer, s)
      | Some buffer \<Rightarrow>
          bindE (Buffer_dtor buffer s) (\<lambda>s1. destroy_loop (it + sizeof_pointer) k s1))"

definition VertexArray_dtor :: "addr \<Rightarrow> 'u state \<Rightarrow> 'u stop + 'u state" where
  "VertexArray_dtor this s =
     bindE (the_VertexArray s this) (\<lambda>v.
       let s1 = call (GlDeleteVertexArrays 1 (VertexArray_handle v)) s
       in bindE (VertexArray_getBuffers this s1) (\<lambda>(range, s2).
          bindE (destroy_loop (first range) (len range) s2) (\<lambda>s3.
          bindE (the_VertexArray s3 this) (\<lambda>v3.
          bindE (allocator_free (attachedBuffers v3) s3) (\<lambda>s4.
            Inr (s4\<lparr>objs := (objs s4)(this := None)\<rparr>))))))"

definition VertexArray_bind :: "addr \<Rightarrow> 'u state \<Rightarrow> 'u stop + 'u state" where
  "VertexArray_bind this s =
     bindE (the_VertexArray s this) (\<lambda>v.
       MGL_OPENGL_CHECK (call (GlBindVertexArray (VertexArray_handle v)) s))"

definition VertexArray_draw :: "addr \<Rightarrow> DrawMode \<Rightarrow> c_int \<Rightarrow> c_int \<Rightarrow> 'u state \<Rightarrow> 'u stop + 'u state" where
  "VertexArray_draw this mode offset count s =
     bindE (the_VertexArray s this) (\<lambda>v.
       MGL_OPENGL_CHECK
         (case mode of
            Triangles \<Rightarrow> call (GlDrawArrays GL_TRIANGLES offset count) s
          | Lines \<Rightarrow> call (GlDrawArrays GL_LINES offset count) s
          | Points \<Rightarrow> call (GlDrawArrays GL_POINTS offset count) s))"

subsection \<open>Texture\<close>

definition Texture_write ::
  "addr \<Rightarrow> c_int \<Rightarrow> c_int \<Rightarrow> c_int \<Rightarrow> c_int \<Rightarrow> DataType \<Rightarrow> addr \<Rightarrow> 'u state \<Rightarrow> 'u stop + 'u state" where
  "Texture_write this x y w h sourceDataType data s =
     bindE (the_Texture s this) (\<lambda>t.
       let s1 = call (GlBindTexture GL_TEXTURE_2D (Texture_handle t)) s;
           s2 = call (GlTexSubImage2D GL_TEXTURE_2D 0 x y w h
                        (enum_cast_TextureFormat (Texture_format t))
                        (enum_cast_DataType sourceDataType) data) s1
       in MGL_OPENGL_CHECK s2)"

definition Texture_setOptions :: "addr \<Rightarrow> TextureOptions \<Rightarrow> 'u state \<Rightarrow> 'u stop + 'u state" where
  "Texture_setOptions this options s =
     bindE (the_Texture s this) (\<lambda>t.
       let s1 = call (GlBindTexture GL_TEXTURE_2D (Texture_handle t)) s;
           s2 = call (GlTexParameteri GL_TEXTURE_2D GL_TEXTURE_MIN_FILTER
                        (enum_cast_TextureFilterMode (filter_min options))) s1;
           s3 = call (GlTexParameteri GL_TEXTURE_2D GL_TEXTURE_MAG_FILTER
                        (enum_cast_TextureFilterMode (filter_mag options))) s2;
           s4 = call (GlTexParameteri GL_TEXTURE_2D GL_TEXTURE_WRAP_S
                        (enum_cast_TextureWrapMode (wrap_s options))) s3;
           s5 = call (GlTexParameteri GL_TEXTURE_2D GL_TEXTURE_WRAP_T
                        (enum_cast_TextureWrapMode (wrap_t options))) s4;
           s6 = call (GlTexParameteri GL_TEXTURE_2D GL_TEXTURE_WRAP_R
                        (enum_cast_TextureWrapMode (wrap_r options))) s5
       in MGL_OPENGL_CHECK s6)"

text \<open>\<open>desc\<close> is the \<^verbatim>\<open>const TextureSourceData*\<close>: \<open>None\<close> for \<^verbatim>\<open>nullptr\<close>.\<close>

definition Texture_make ::
  "c_int \<Rightarrow> c_int \<Rightarrow> TextureFormat \<Rightarrow> TextureSourceData option \<Rightarrow> 'u state
     \<Rightarrow> 'u stop + (addr \<times> 'u state)" where
  "Texture_make w h deviceFormat desc s =
     (case glGenName (GlGenTextures 1) s of (handle, s1) \<Rightarrow>
        let s2 = call (GlBindTexture GL_TEXTURE_2D handle) s1;
            s3 = (case desc of
                    Some d \<Rightarrow>
                      call (GlTexImage2D GL_TEXTURE_2D 0
                              (enum_cast_TextureFormat deviceFormat) w h 0
                              (enum_cast_TextureFormat (sizedToBase (source_format d)))
                              (enum_cast_DataType (source_type d)) (source_data d)) s2
                  | None \<Rightarrow>
                      call (GlTexImage2D GL_TEXTURE_2D 0
                              (enum_cast_TextureFormat deviceFormat) w h 0
                              (enum_cast_TextureFormat (sizedToBase deviceFormat))
                              GL_UNSIGNED_BYTE 0) s2)
        in bindE (MGL_OPENGL_CHECK s3) (\<lambda>s4.
             newObject (TextureObj \<lparr>Texture_handle = handle, Texture_format = deviceFormat\<rparr>) s4))"

definition Texture_dtor :: "addr \<Rightarrow> 'u state \<Rightarrow> 'u stop + 'u state" where
  "Texture_dtor this s =
     bindE (the_Texture s this) (\<lambda>t.
       bindE (MGL_OPENGL_CHECK (call (GlDeleteTextures 1 (Texture_handle t)) s)) (\<lambda>s1.
         Inr (s1\<lparr>objs := (objs s1)(this := None)\<rparr>)))"

subsection \<open>Devices and states the theorems are run on\<close>

text \<open>
  A device that never reports an error, hands out as name one more than the number of
  calls made so far, reports every compilation and link as successful and locates every
  uniform at 0.
\<close>

definition quiet :: driver where
  "quiet =
     \<lparr>drv_getError = (\<lambda>h. GL_NO_ERROR),
      drv_genName = (\<lambda>h. word_of_nat (length h) + 1),
      drv_getiv = (\<lambda>h name pname. Some GL_TRUE),
      drv_infoLog = (\<lambda>h name bufSize. 0),
      drv_uniformLocation = (\<lambda>h name a. 0)\<rparr>"

text \<open>
  The same device, but it compiles only the first shader created after initialisation
  (the one it names 2) and reports a 5-character log for every other one.
\<close>

definition fragment_rejecting :: driver where
  "fragment_rejecting =
     quiet\<lparr>drv_getiv := (\<lambda>h name pname. if name = 2 then Some GL_TRUE else Some GL_FALSE),
           drv_infoLog := (\<lambda>h name bufSize. 5)\<rparr>"

text \<open>The quiet device, but every link fails, with a 5-character log.\<close>

definition link_rejecting :: driver where
  "link_rejecting =
     quiet\<lparr>drv_getiv := (\<lambda>h name pname. if pname = GL_LINK_STATUS then Some GL_FALSE else Some GL_TRUE),
           drv_infoLog := (\<lambda>h name bufSize. 5)\<rparr>"

text \<open>The state after \<^verbatim>\<open>mgl::init()\<close>, with the default allocator, on a given device.\<close>

definition boot :: "driver \<Rightarrow> nat state" where
  "boot d =
     init (Some defaultAllocator)
       \<lparr>allocator = None, device = d, calls = [], objs = Map.empty, cells = Map.empty\<rparr>"

text \<open>
  A program run for the properties to be tried on: two buffers, a texture and a program
  are made, the caller stores the two buffer pointers in an array at address 20480
  (\<open>store_array\<close>), and a vertex array is made from that array with a callback that binds
  the first buffer. \<open>scene\<close> is the state this run ends in, written out.
\<close>

primrec store_array :: "addr \<Rightarrow> addr list \<Rightarrow> 'u state \<Rightarrow> 'u state" where
  "store_array a [] s = s"
| "store_array a (p # ps) s = store_array (a + sizeof_pointer) ps (s\<lparr>cells := (cells s)(a \<mapsto> p)\<rparr>)"

definition bind_first :: "handle_t \<Rightarrow> View \<Rightarrow> 'u state \<Rightarrow> 'u stop + 'u state" where
  "bind_first h buffers s =
     (case cells s (View_data buffers) of
        None \<Rightarrow> Inl (BadPointer, s)
      | Some b \<Rightarrow> Buffer_bind b s)"

definition scene_run :: "nat state" where
  "scene_run =
     (let s1 = final_of (Buffer_make Array 4096 0 True (boot quiet));
          s2 = final_of (Buffer_make Element 32 0 False s1);
          s3 = final_of (Texture_make 1 1 RGB32f
                 (Some \<lparr>source_format = RGB, source_type = Byte, source_data = 12288\<rparr>) s2);
          s4 = final_of (Program_make \<lparr>first = 24576, len = 120\<rparr> \<lparr>first = 28672, len = 90\<rparr>
                 \<lparr>first = 16384, len = 1024\<rparr> s3);
          s5 = store_array 20480 [4096, 4128] s4
      in final_of (VertexArray_make \<lparr>first = 20480, len = 2\<rparr> bind_first s5))"

definition scene :: "nat state" where
  "scene =
     \<lparr>allocator = Some (defaultAllocator\<lparr>user := 4256\<rparr>),
      device = quiet,
      calls =
        [GladLoadGL,
         GlGenBuffers 1 2, GlBindBuffer GL_ARRAY_BUFFER 2,
         GlBufferData GL_ARRAY_BUFFER 4096 0 GL_DYNAMIC_DRAW, GlGetError 0, Allocate 24 4096,
         GlGenBuffers 1 7, GlBindBuffer GL_ELEMENT_ARRAY_BUFFER 7,
         GlBufferData GL_ELEMENT_ARRAY_BUFFER 32 0 GL_STATIC_DRAW, GlGetError 0, Allocate 24 4128,
         GlGenTextures 1 12, GlBindTexture GL_TEXTURE_2D 12,
         GlTexImage2D GL_TEXTURE_2D 0 GL_RGB32F 1 1 0 GL_RGB GL_UNSIGNED_BYTE 12288,
         GlGetError 0, Allocate 8 4160,
         GlCreateShader GL_VERTEX_SHADER 17, GlShaderSource 17 1 24576 120, GlCompileShader 17,
         GlGetShaderiv 17 GL_COMPILE_STATUS (Some 1), GlGetError 0, GlGetError 0,
         GlCreateShader GL_FRAGMENT_SHADER 23, GlShaderSource 23 1 28672 90, GlCompileShader 23,
         GlGetShaderiv 23 GL_COMPILE_STATUS (Some 1), GlGetError 0, GlGetError 0,
         GlCreateProgram 29, GlAttachShader 29 17, GlAttachShader 29 23,
         GlDeleteShader 17, GlDeleteShader 23, GlLinkProgram 29,
         GlGetProgramiv 29 GL_LINK_STATUS (Some 1), GlGetError 0, GlGetError 0, Allocate 4 4176,
         GlGenVertexArrays 1 39, GlBindVertexArray 39, GlGetError 0,
         GlBindBuffer GL_ARRAY_BUFFER 2, GlGetError 0, GlGetError 0,
         Allocate 16 4192, Allocate 24 4224],
      objs =
        [4096 \<mapsto> BufferObj \<lparr>Buffer_handle = 2, Buffer_size = 4096, Buffer_type = Array\<rparr>,
         4128 \<mapsto> BufferObj \<lparr>Buffer_handle = 7, Buffer_size = 32, Buffer_type = Element\<rparr>,
         4160 \<mapsto> TextureObj \<lparr>Texture_handle = 12, Texture_format = RGB32f\<rparr>,
         4176 \<mapsto> ProgramObj \<lparr>Program_handle = 29\<rparr>,
         4224 \<mapsto> VertexArrayObj \<lparr>VertexArray_handle = 39, attachedBuffers = 4192,
                   attachedBufferCount = 2\<rparr>],
      cells = [20480 \<mapsto> 4096, 20488 \<mapsto> 4128, 4192 \<mapsto> 4096, 4200 \<mapsto> 4128]\<rparr>"

subsection \<open>Notions the properties are stated with\<close>

text \<open>
  \<open>links_at s a ps\<close>: the pointer cells from address \<open>a\<close> on hold the pointers
  \<open>ps\<close>, in order. \<open>is_Buffer s p\<close>: a buffer object lives at \<open>p\<close>;
  \<open>handle_at s p\<close> is its device handle. \<open>buffer_destroys\<close> counts the
  \<^verbatim>\<open>glDeleteBuffers\<close> calls of a log.
\<close>

primrec links_at :: "'u state \<Rightarrow> addr \<Rightarrow> addr list \<Rightarrow> bool" where
  "links_at s a [] = True"
| "links_at s a (p # ps) = (cells s a = Some p \<and> links_at s (a + sizeof_pointer) ps)"

definition is_Buffer :: "'u state \<Rightarrow> addr \<Rightarrow> bool" where
  "is_Buffer s p = (case objs s p of Some (BufferObj b) \<Rightarrow> True | _ \<Rightarrow> False)"

definition handle_at :: "'u state \<Rightarrow> addr \<Rightarrow> handle_t" where
  "handle_at s p = (case objs s p of Some (BufferObj b) \<Rightarrow> Buffer_handle b | _ \<Rightarrow> 0)"

definition buffer_destroys :: "event list \<Rightarrow> nat" where
  "buffer_destroys es =
     length (filter (\<lambda>e. case e of Call name args \<Rightarrow> name = ''glDeleteBuffers'') es)"

text \<open>\<open>unchanged s s'\<close>: every object and every pointer cell of \<open>s\<close> is the same in \<open>s'\<close>.\<close>

definition unchanged :: "'u state \<Rightarrow> 'u state \<Rightarrow> bool" where
  "unchanged s s' = (objs s' = objs s \<and> cells s' = cells s)"

text \<open>
  \<open>only_logged s s'\<close>: \<open>s'\<close> is \<open>s\<close> with calls added to the log and nothing else
  changed, neither an object, nor a cell, nor the installed allocator and its state, nor
  the device.
\<close>

definition only_logged :: "'u state \<Rightarrow> 'u state \<Rightarrow> bool" where
  "only_logged s s' = (\<exists>es. s' = s\<lparr>calls := calls s @ es\<rparr>)"

section \<open>Properties\<close>

subsection \<open>Helper facts\<close>

lemma bindE_Inr [simp]: "bindE (Inr x) f = f x"
  by (simp add: bindE_def)

lemma bindE_Inl [simp]: "bindE (Inl e) f = Inl e"
  by (simp add: bindE_def)

lemma bindE_eq_Inr: "bindE m f = Inr y \<longleftrightarrow> (\<exists>x. m = Inr x \<and> f x = Inr y)"
  by (cases m) simp_all

lemma calls_call [simp]: "calls (call e s) = calls s @ [e]"
  by (simp add: call_def)

lemma call_frame [simp]:
  "objs (call e s) = objs s" "cells (call e s) = cells s"
  "allocator (call e s) = allocator s" "device (call e s) = device s"
  by (simp_all add: call_def)

lemma final_simps [simp]:
  "final (Inr s) = s" "final (Inl (e, s)) = s"
  "final_of (Inr (x, s)) = s" "final_of (Inl (e, s)) = s"
  by (simp_all add: final_def final_of_def)

text \<open>Running the example devices and the default allocator.\<close>

lemma quiet_simps [simp]:
  "drv_getError quiet h = 0"
  "drv_genName quiet h = word_of_nat (length h) + 1"
  "drv_getiv quiet h n p = Some 1"
  "drv_infoLog quiet h n b = 0"
  "drv_uniformLocation quiet h n a = 0"
  by (simp_all add: quiet_def)

lemma fragment_rejecting_simps [simp]:
  "drv_getError fragment_rejecting h = 0"
  "drv_genName fragment_rejecting h = word_of_nat (length h) + 1"
  "drv_getiv fragment_rejecting h n p = (if n = 2 then Some 1 else Some 0)"
  "drv_infoLog fragment_rejecting h n b = 5"
  by (simp_all add: fragment_rejecting_def quiet_def)

lemma link_rejecting_simps [simp]:
  "drv_getError link_rejecting h = 0"
  "drv_genName link_rejecting h = word_of_nat (length h) + 1"
  "drv_getiv link_rejecting h n p = (if p = GL_LINK_STATUS then Some 0 else Some 1)"
  "drv_infoLog link_rejecting h n b = 5"
  by (simp_all add: link_rejecting_def quiet_def)

lemma defaultAllocator_simps [simp]:
  "allocate defaultAllocator next n = (next, next + 16 * (n div 16 + 1))"
  "free defaultAllocator next p = next"
  "user defaultAllocator = 4096"
  by (simp_all add: defaultAllocator_def)

lemma boot_eval:
  "boot d = \<lparr>allocator = Some (defaultAllocator\<lparr>user := 4096\<rparr>), device = d, calls = [GladLoadGL],
      objs = Map.empty, cells = Map.empty\<rparr>"
  by (simp add: boot_def init_def call_def defaultAllocator_def)

lemma check_ok:
  "drv_getError (device s) (calls s) = GL_NO_ERROR \<Longrightarrow>
     MGL_OPENGL_CHECK s = Inr (call (GlGetError GL_NO_ERROR) s)"
  by (simp add: MGL_OPENGL_CHECK_def glGetErrorString_def glGetError_def)

lemma default_allocate:
  "allocator s = Some (defaultAllocator\<lparr>user := u\<rparr>) \<Longrightarrow>
     allocator_allocate n s =
       Inr (u, call (Allocate n u)
                 (s\<lparr>allocator := Some (defaultAllocator\<lparr>user := u + 16 * (n div 16 + 1)\<rparr>)\<rparr>))"
  by (simp add: allocator_allocate_def)

lemma default_free:
  "allocator s = Some (defaultAllocator\<lparr>user := u\<rparr>) \<Longrightarrow>
     allocator_free p s = Inr (call (Free p) s)"
  by (simp add: allocator_free_def call_def)

lemmas run_simps =
  check_ok default_allocate default_free newObject_def
  glGenName_def glGetiv_def glGetInfoLog_def glGetUniformLocation_def
  View_size_def View_data_def View_empty_def
  the_Buffer_def the_VertexArray_def the_Texture_def the_Program_def Let_def

lemma attach_loop_unfold:
  "attach_loop vao buffers i k s =
     (if k = 0 then Inr s
      else case cells s (View_data buffers + sizeof_pointer * i) of
        None \<Rightarrow> Inl (BadPointer, s)
      | Some buffer \<Rightarrow>
          bindE (the_VertexArray s vao) (\<lambda>v.
            if attachedBuffers v = 0 then Inl (BadPointer, s)
            else
              let s1 = s\<lparr>cells := (cells s)(attachedBuffers v + sizeof_pointer * i \<mapsto> buffer)\<rparr>
              in if i = INT_MAX then Inl (SignedOverflow, s1)
                 else attach_loop vao buffers (i + 1) (k - 1) s1))"
  by (cases k) (simp_all cong: if_cong option.case_cong)

lemma destroy_loop_unfold:
  "destroy_loop it k s =
     (if k = 0 then Inr s
      else case cells s it of
        None \<Rightarrow> Inl (BadPointer, s)
      | Some buffer \<Rightarrow>
          bindE (Buffer_dtor buffer s) (\<lambda>s1. destroy_loop (it + sizeof_pointer) (k - 1) s1))"
  by (cases k) (simp_all cong: if_cong option.case_cong)

lemma scene_run_eval: "scene_run = scene"
proof -
  define s1 :: "nat state" where "s1 = final_of (Buffer_make Array 4096 0 True (boot quiet))"
  define s2 where "s2 = final_of (Buffer_make Element 32 0 False s1)"
  define s3 where "s3 = final_of (Texture_make 1 1 RGB32f
                 (Some \<lparr>source_format = RGB, source_type = Byte, source_data = 12288\<rparr>) s2)"
  define s4 where "s4 = final_of (Program_make \<lparr>first = 24576, len = 120\<rparr> \<lparr>first = 28672, len = 90\<rparr>
                 \<lparr>first = 16384, len = 1024\<rparr> s3)"
  define s5 where "s5 = store_array 20480 [4096, 4128] s4"
  have e1: "s1 = \<lparr>allocator = Some (defaultAllocator\<lparr>user := 4128\<rparr>), device = quiet,
      calls = take 6 (calls scene), objs = objs scene |` {4096}, cells = Map.empty\<rparr>"
    by (simp add: s1_def boot_eval Buffer_make_def run_simps call_def scene_def restrict_map_def fun_eq_iff)
  have e2: "s2 = \<lparr>allocator = Some (defaultAllocator\<lparr>user := 4160\<rparr>), device = quiet,
      calls = take 11 (calls scene), objs = objs scene |` {4096, 4128}, cells = Map.empty\<rparr>"
    by (simp add: s2_def e1 Buffer_make_def run_simps call_def scene_def restrict_map_def fun_eq_iff)
  have e3: "s3 = \<lparr>allocator = Some (defaultAllocator\<lparr>user := 4176\<rparr>), device = quiet,
      calls = take 16 (calls scene), objs = objs scene |` {4096, 4128, 4160}, cells = Map.empty\<rparr>"
    by (simp add: s3_def e2 Texture_make_def run_simps call_def scene_def restrict_map_def fun_eq_iff)
  have e4: "s4 = \<lparr>allocator = Some (defaultAllocator\<lparr>user := 4192\<rparr>), device = quiet,
      calls = take 38 (calls scene), objs = objs scene |` {4096, 4128, 4160, 4176}, cells = Map.empty\<rparr>"
    by (simp add: s4_def e3 Program_make_def compile_def run_simps call_def scene_def restrict_map_def fun_eq_iff)
  have e5: "s5 = \<lparr>allocator = Some (defaultAllocator\<lparr>user := 4192\<rparr>), device = quiet,
      calls = take 38 (calls scene), objs = objs scene |` {4096, 4128, 4160, 4176},
      cells = [20480 \<mapsto> 4096, 20488 \<mapsto> 4128]\<rparr>"
    by (simp add: s5_def e4)
  have "final_of (VertexArray_make \<lparr>first = 20480, len = 2\<rparr> bind_first s5) = scene"
    by (simp add: e5 VertexArray_make_def bind_first_def Buffer_bind_def attach_loop_unfold
        run_simps call_def scene_def restrict_map_def fun_eq_iff)
  then show ?thesis
    by (simp add: scene_run_def s1_def s2_def s3_def s4_def s5_def Let_def)
qed

subsection \<open>Pixel formats\<close>

text \<open>
  C8. \<open>sizedToBase\<close> is idempotent, it keeps the channel count, and its value is
  never a sized format; the eight sized formats go to RED, RG, RGB and RGBA by their
  channels.
\<close>

theorem sizedToBase_idempotent_channels:
  "sizedToBase (sizedToBase f) = sizedToBase f
   \<and> channelCount (sizedToBase f) = channelCount f
   \<and> isSized (sizedToBase f) = False
   \<and> sizedToBase R8u = RED \<and> sizedToBase R32f = RED
   \<and> sizedToBase RG8u = RG \<and> sizedToBase RG32f = RG
   \<and> sizedToBase RGB8u = RGB \<and> sizedToBase RGB32f = RGB
   \<and> sizedToBase RGBA8u = RGBA \<and> sizedToBase RGBA32f = RGBA
   \<and> channelCount RED = 1 \<and> channelCount RG = 2 \<and> channelCount RGB = 3 \<and> channelCount RGBA = 4"
  by (cases f) simp_all

theorem sizedToBase_idempotent_channels_witness:
  "sizedToBase (sizedToBase RGBA32f) = RGBA
   \<and> channelCount (sizedToBase RGBA32f) = 4 \<and> channelCount RGBA32f = 4
   \<and> sizedToBase (sizedToBase BGR) = BGR"
  using sizedToBase_idempotent_channels [of RGBA32f] sizedToBase_idempotent_channels [of BGR]
  by simp

subsection \<open>Views\<close>

text \<open>
  C7. \<open>fromObject\<close> gives a view of \<open>sizeof (Object) / sizeof (float)\<close> elements
  that starts at the object itself (nothing is copied): 16 elements for a 4x4 float
  matrix, 3 for a 3-component vector, 9 for a 3x3 matrix.
\<close>

theorem fromObject_element_count:
  "View_size (fromObject sizeof_Object object) = sizeof_Object div sizeof_float
   \<and> View_data (fromObject sizeof_Object object) = object
   \<and> View_size (fromObject (sizeof_mat 4) object) = 16
   \<and> View_size (fromObject (sizeof_vec 3) object) = 3
   \<and> View_size (fromObject (sizeof_mat 3) object) = 9"
  by (simp add: fromObject_def View_size_def View_data_def sizeof_mat_def sizeof_vec_def)

theorem fromObject_element_count_witness:
  "View_size (fromObject 64 4096) = 16 \<and> View_data (fromObject 64 4096) = 4096
   \<and> View_size (fromObject 7 4096) = 1"
  using fromObject_element_count [of 64 4096] fromObject_element_count [of 7 4096]
  by simp

subsection \<open>Uniform upload\<close>

text \<open>
  C1. For each supported value type \<open>T\<close>, \<open>Uniform<T>\<close> calls the matching
  primitive with a view of the value whose element count is the arity of \<open>T\<close>; the
  primitive's assertion holds, so the call returns after the one device upload.
\<close>

theorem Uniform_arity:
  "\<exists>view. View_size view = arity T \<and> View_data view = value
     \<and> Uniform_T T p i value s = primitive T p i view s
     \<and> primitive T p i view s = Inr (call (upload T i value) s)"
proof (cases T)
  case T_float
  then show ?thesis
    by (intro exI [of _ "\<lparr>first = value, len = 1\<rparr>"])
       (simp add: Uniform_float_def set_uniform_f1_def MGL_ASSERT_def View_size_def View_data_def)
next
  case T_int
  then show ?thesis
    by (intro exI [of _ "\<lparr>first = value, len = 1\<rparr>"])
       (simp add: Uniform_int_def set_uniform_i1_def MGL_ASSERT_def View_size_def View_data_def)
next
  case T_Sampler
  then show ?thesis
    by (intro exI [of _ "\<lparr>first = value, len = 1\<rparr>"])
       (simp add: Uniform_Sampler_def set_uniform_Sampler_def set_uniform_i1_def MGL_ASSERT_def
          View_size_def View_data_def)
next
  case T_vec2
  then show ?thesis
    by (intro exI [of _ "fromObject (sizeof_vec 2) value"])
       (simp add: Uniform_vec2_def set_uniform_f2_def MGL_ASSERT_def View_size_def View_data_def
          fromObject_def sizeof_vec_def)
next
  case T_vec3
  then show ?thesis
    by (intro exI [of _ "fromObject (sizeof_vec 3) value"])
       (simp add: Uniform_vec3_def set_uniform_f3_def MGL_ASSERT_def View_size_def View_data_def
          fromObject_def sizeof_vec_def)
next
  case T_vec4
  then show ?thesis
    by (intro exI [of _ "fromObject (sizeof_vec 4) value"])
       (simp add: Uniform_vec4_def set_uniform_f4_def MGL_ASSERT_def View_size_def View_data_def
          fromObject_def sizeof_vec_def)
next
  case T_mat3
  then show ?thesis
    by (intro exI [of _ "fromObject (sizeof_mat 3) value"])
       (simp add: Uniform_mat3_def set_uniform_m3x3_def MGL_ASSERT_def View_size_def View_data_def
          fromObject_def sizeof_mat_def)
next
  case T_mat4
  then show ?thesis
    by (intro exI [of _ "fromObject (sizeof_mat 4) value"])
       (simp add: Uniform_mat4_def set_uniform_m4x4_def MGL_ASSERT_def View_size_def View_data_def
          fromObject_def sizeof_mat_def)
qed

theorem Uniform_arity_witness:
  "Uniform_T T_mat4 8192 3 12288 (boot quiet)
     = Inr (call (GlUniformMatrix4fv 3 1 0 12288) (boot quiet))
   \<and> Uniform_T T_Sampler 8192 0 12288 (boot quiet)
     = Inr (call (GlUniform1iv 0 1 12288) (boot quiet))"
  using Uniform_arity [of T_mat4 12288 8192 3 "boot quiet"]
    Uniform_arity [of T_Sampler 12288 8192 0 "boot quiet"]
  by auto

subsection \<open>Clearing\<close>

text \<open>
  C3 (the code departs from the claim). With both flags set, as in \<^verbatim>\<open>clear(r, g, b)\<close>
  with its default arguments, the flag word passed to \<^verbatim>\<open>glClear\<close> is the colour bit
  alone: no depth clear is requested.
\<close>

theorem clear_both_drops_depth:
  "calls (clear 0x3DCCCCCD 0x3DCCCCCD 0x3DCCCCCD True True (boot quiet))
     = [GladLoadGL, GlClearColor 0x3DCCCCCD 0x3DCCCCCD 0x3DCCCCCD float_1,
        GlClear GL_COLOR_BUFFER_BIT]
   \<and> clear_flags True True AND GL_DEPTH_BUFFER_BIT = 0
   \<and> clear_flags True True \<noteq> GL_COLOR_BUFFER_BIT OR GL_DEPTH_BUFFER_BIT"
  by (simp add: clear_def clear_flags_def boot_def init_def)

text \<open>The other three combinations of the flags give the word the claim describes.\<close>

lemma clear_flags_other_cases:
  "clear_flags True False = GL_COLOR_BUFFER_BIT"
  "clear_flags False True = GL_DEPTH_BUFFER_BIT"
  "clear_flags False False = 0"
  by (simp_all add: clear_flags_def)

subsection \<open>Destroying a vertex array\<close>

lemma Buffer_dtor_live:
  "is_Buffer s p \<Longrightarrow>
     Buffer_dtor p s = Inr (s\<lparr>calls := calls s @ [GlDeleteBuffers 1 (handle_at s p)],
                              objs := (objs s)(p := None)\<rparr>)"
  by (auto simp add: Buffer_dtor_def the_Buffer_def is_Buffer_def handle_at_def call_def Let_def
      split: option.splits obj.splits)

lemma links_at_cong:
  "cells s' = cells s \<Longrightarrow> links_at s' a ps = links_at s a ps"
  by (induction ps arbitrary: a) simp_all

lemma destroy_loop_live:
  "links_at s it ps \<Longrightarrow> distinct ps \<Longrightarrow> list_all (is_Buffer s) ps \<Longrightarrow>
     \<exists>s'. destroy_loop it (length ps) s = Inr s'
        \<and> calls s' = calls s @ map (\<lambda>p. GlDeleteBuffers 1 (handle_at s p)) ps
        \<and> objs s' = (\<lambda>x. if x \<in> set ps then None else objs s x)
        \<and> cells s' = cells s \<and> allocator s' = allocator s \<and> device s' = device s"
proof (induction ps arbitrary: s it)
  case Nil
  then show ?case by simp
next
  case (Cons p ps)
  define s1 where "s1 = s\<lparr>calls := calls s @ [GlDeleteBuffers 1 (handle_at s p)],
               objs := (objs s)(p := None)\<rparr>"
  have s1: "calls s1 = calls s @ [GlDeleteBuffers 1 (handle_at s p)]"
    "objs s1 = (objs s)(p := None)" "cells s1 = cells s" "allocator s1 = allocator s"
    "device s1 = device s"
    by (simp_all add: s1_def)
  from Cons.prems have cell: "cells s it = Some p" and p: "is_Buffer s p"
    and fresh: "p \<notin> set ps" by simp_all
  have same: "is_Buffer s1 q = is_Buffer s q" "handle_at s1 q = handle_at s q"
    if "q \<in> set ps" for q
    using that fresh by (auto simp add: is_Buffer_def handle_at_def s1(2))
  have l: "links_at s1 (it + sizeof_pointer) ps"
    using Cons.prems(1) links_at_cong [OF s1(3)] by simp
  have d: "distinct ps" using Cons.prems(2) by simp
  have b: "list_all (is_Buffer s1) ps"
    using Cons.prems(3) same(1) by (simp add: list_all_iff)
  from Cons.IH [OF l d b]
  obtain s' where all': "destroy_loop (it + sizeof_pointer) (length ps) s1 = Inr s'
        \<and> calls s' = calls s1 @ map (\<lambda>p. GlDeleteBuffers 1 (handle_at s1 p)) ps
        \<and> objs s' = (\<lambda>x. if x \<in> set ps then None else objs s1 x)
        \<and> cells s' = cells s1 \<and> allocator s' = allocator s1 \<and> device s' = device s1" ..
  have m: "map (\<lambda>p. GlDeleteBuffers 1 (handle_at s1 p)) ps
          = map (\<lambda>p. GlDeleteBuffers 1 (handle_at s p)) ps"
    using same(2) by (intro map_cong) simp_all
  have c': "calls s' = calls s @ map (\<lambda>p. GlDeleteBuffers 1 (handle_at s p)) (p # ps)"
    using all' m s1(1) by simp
  have ob': "objs s' = (\<lambda>x. if x \<in> set (p # ps) then None else objs s x)"
    using all' s1(2) by (simp add: fun_eq_iff)
  have dt: "Buffer_dtor p s = Inr s1"
    using Buffer_dtor_live [OF p] by (simp add: s1_def)
  have "destroy_loop it (length (p # ps)) s = Inr s'"
    using cell all' dt by simp
  with c' ob' all' s1 show ?case by simp
qed

lemma buffer_destroys_append:
  "buffer_destroys (xs @ ys) = buffer_destroys xs + buffer_destroys ys"
  by (simp add: buffer_destroys_def)

lemma buffer_destroys_map:
  "buffer_destroys (map (\<lambda>p. GlDeleteBuffers n (f p)) ps) = length ps"
  by (induction ps) (simp_all add: buffer_destroys_def)

lemma VertexArray_dtor_run:
  assumes "objs s this = Some (VertexArrayObj v)"
    and "allocator s \<noteq> None"
    and "length ps = attachedBufferCount v"
    and "links_at s (attachedBuffers v) ps"
    and "distinct ps"
    and "list_all (is_Buffer s) ps"
  shows "\<exists>s'. VertexArray_dtor this s = Inr s'
     \<and> calls s' = calls s @ [GlDeleteVertexArrays 1 (VertexArray_handle v)]
          @ map (\<lambda>p. GlDeleteBuffers 1 (handle_at s p)) ps
          @ [Free (attachedBuffers v)]
     \<and> buffer_destroys (calls s') = buffer_destroys (calls s) + attachedBufferCount v
     \<and> allocator s' \<noteq> None"
proof -
  define s1 where "s1 = call (GlDeleteVertexArrays 1 (VertexArray_handle v)) s"
  have s1: "objs s1 = objs s" "cells s1 = cells s" "allocator s1 = allocator s"
    "calls s1 = calls s @ [GlDeleteVertexArrays 1 (VertexArray_handle v)]"
    by (simp_all add: s1_def)
  have h: "handle_at s1 = handle_at s" "is_Buffer s1 = is_Buffer s"
    by (simp_all add: handle_at_def is_Buffer_def fun_eq_iff s1(1))
  have l: "links_at s1 (attachedBuffers v) ps"
    using assms(4) links_at_cong [OF s1(2)] by simp
  have b: "list_all (is_Buffer s1) ps"
    using assms(6) h(2) by simp
  from destroy_loop_live [OF l assms(5) b]
  obtain s3 where all3: "destroy_loop (attachedBuffers v) (length ps) s1 = Inr s3
      \<and> calls s3 = calls s1 @ map (\<lambda>p. GlDeleteBuffers 1 (handle_at s1 p)) ps
      \<and> objs s3 = (\<lambda>x. if x \<in> set ps then None else objs s1 x)
      \<and> cells s3 = cells s1 \<and> allocator s3 = allocator s1 \<and> device s3 = device s1" ..
  from all3 have run: "destroy_loop (attachedBuffers v) (length ps) s1 = Inr s3" by (rule conjunct1)
  from all3 have c: "calls s3 = calls s1 @ map (\<lambda>p. GlDeleteBuffers 1 (handle_at s1 p)) ps"
    by (elim conjE)
  from all3 have ob: "objs s3 = (\<lambda>x. if x \<in> set ps then None else objs s1 x)"
    by (elim conjE)
  from all3 have al: "allocator s3 = allocator s1"
    by (elim conjE)
  have notbuf: "this \<notin> set ps"
    using assms(1,6) by (auto simp add: list_all_iff is_Buffer_def)
  have v3: "the_VertexArray s3 this = Inr v"
    using ob notbuf assms(1) s1(1) by (simp add: the_VertexArray_def)
  obtain a where a: "allocator s3 = Some a"
    using al assms(2) s1(3) by auto
  define s4 where "s4 = call (Free (attachedBuffers v))
       (s3\<lparr>allocator := Some (a\<lparr>user := free a (user a) (attachedBuffers v)\<rparr>)\<rparr>)"
  have fr: "allocator_free (attachedBuffers v) s3 = Inr s4"
    using a by (simp add: allocator_free_def s4_def)
  have gb: "VertexArray_getBuffers this s1
      = Inr (\<lparr>first = attachedBuffers v, len = attachedBufferCount v\<rparr>, s1)"
    using assms(1) s1(1) by (simp add: VertexArray_getBuffers_def the_VertexArray_def)
  have v0: "the_VertexArray s this = Inr v"
    using assms(1) by (simp add: the_VertexArray_def)
  have run': "destroy_loop (attachedBuffers v) (attachedBufferCount v) s1 = Inr s3"
    using run assms(3) by simp
  have dt: "VertexArray_dtor this s = Inr (s4\<lparr>objs := (objs s4)(this := None)\<rparr>)"
    unfolding VertexArray_dtor_def by (simp add: v0 Let_def s1_def [symmetric] gb run' v3 fr)
  have c4: "calls s4 = calls s @ [GlDeleteVertexArrays 1 (VertexArray_handle v)]
          @ map (\<lambda>p. GlDeleteBuffers 1 (handle_at s p)) ps @ [Free (attachedBuffers v)]"
    by (simp add: s4_def c s1(4) h(1))
  have n: "buffer_destroys (calls s4) = buffer_destroys (calls s) + attachedBufferCount v"
    unfolding c4 buffer_destroys_append buffer_destroys_map assms(3) [symmetric]
    by (simp add: buffer_destroys_def)
  have al4: "allocator s4 \<noteq> None"
    by (simp add: s4_def call_def)
  show ?thesis
    using dt c4 n al4 by simp
qed

lemma newObject_Inr:
  "newObject object s = Inr (p, s') \<Longrightarrow> objs s' p = Some object \<and> allocator s' \<noteq> None \<and> p \<noteq> 0"
  by (auto simp add: newObject_def allocator_allocate_def bindE_eq_Inr
      split: option.splits prod.splits if_splits)

lemma VertexArray_make_empty:
  assumes "VertexArray_make \<lparr>first = a, len = 0\<rparr> callback s = Inr (vao, s1)"
  shows "\<exists>h links. objs s1 vao = Some (VertexArrayObj \<lparr>VertexArray_handle = h,
            attachedBuffers = links, attachedBufferCount = 0\<rparr>) \<and> allocator s1 \<noteq> None"
proof -
  from assms obtain h links s6
    where "newObject (VertexArrayObj \<lparr>VertexArray_handle = h, attachedBuffers = links,
             attachedBufferCount = 0\<rparr>) s6 = Inr (vao, s1)"
    by (auto simp add: VertexArray_make_def bindE_eq_Inr View_size_def Let_def split: prod.splits)
  then show ?thesis
    by (blast dest: newObject_Inr)
qed

text \<open>
  C4. Destroying a vertex array that owns the live, distinct buffers \<open>ps\<close> deletes
  the device vertex array, then destroys each buffer in turn, then frees the array of
  links, and makes no other call; the number of buffer destructions is the number of
  buffers owned. A vertex array made from an empty list is destroyed with no buffer
  destruction at all.
\<close>

theorem VertexArray_dtor_order:
  "(objs s this = Some (VertexArrayObj v) \<and> allocator s \<noteq> None
      \<and> length ps = attachedBufferCount v \<and> links_at s (attachedBuffers v) ps
      \<and> distinct ps \<and> list_all (is_Buffer s) ps
    \<longrightarrow> (\<exists>s'. VertexArray_dtor this s = Inr s'
          \<and> calls s' = calls s @ [GlDeleteVertexArrays 1 (VertexArray_handle v)]
               @ map (\<lambda>p. GlDeleteBuffers 1 (handle_at s p)) ps
               @ [Free (attachedBuffers v)]
          \<and> buffer_destroys (calls s') = buffer_destroys (calls s) + length ps))
   \<and> (VertexArray_make \<lparr>first = a, len = 0\<rparr> callback s0 = Inr (vao, s1)
    \<longrightarrow> (\<exists>s2 v0. objs s1 vao = Some (VertexArrayObj v0) \<and> attachedBufferCount v0 = 0
          \<and> VertexArray_dtor vao s1 = Inr s2
          \<and> calls s2 = calls s1 @ [GlDeleteVertexArrays 1 (VertexArray_handle v0),
                                     Free (attachedBuffers v0)]
          \<and> buffer_destroys (calls s2) = buffer_destroys (calls s1)))"
proof (intro conjI impI)
  assume a: "objs s this = Some (VertexArrayObj v) \<and> allocator s \<noteq> None
      \<and> length ps = attachedBufferCount v \<and> links_at s (attachedBuffers v) ps
      \<and> distinct ps \<and> list_all (is_Buffer s) ps"
  then have "\<exists>s'. VertexArray_dtor this s = Inr s'
     \<and> calls s' = calls s @ [GlDeleteVertexArrays 1 (VertexArray_handle v)]
          @ map (\<lambda>p. GlDeleteBuffers 1 (handle_at s p)) ps
          @ [Free (attachedBuffers v)]
     \<and> buffer_destroys (calls s') = buffer_destroys (calls s) + attachedBufferCount v
     \<and> allocator s' \<noteq> None"
    by (intro VertexArray_dtor_run) simp_all
  with a show "\<exists>s'. VertexArray_dtor this s = Inr s'
          \<and> calls s' = calls s @ [GlDeleteVertexArrays 1 (VertexArray_handle v)]
               @ map (\<lambda>p. GlDeleteBuffers 1 (handle_at s p)) ps
               @ [Free (attachedBuffers v)]
          \<and> buffer_destroys (calls s') = buffer_destroys (calls s) + length ps"
    by auto
next
  assume m: "VertexArray_make \<lparr>first = a, len = 0\<rparr> callback s0 = Inr (vao, s1)"
  from VertexArray_make_empty [OF m] obtain h links
    where v: "objs s1 vao = Some (VertexArrayObj \<lparr>VertexArray_handle = h,
            attachedBuffers = links, attachedBufferCount = 0\<rparr>)"
      and al: "allocator s1 \<noteq> None"
    by auto
  from VertexArray_dtor_run [OF v al, of "[]"]
  show "\<exists>s2 v0. objs s1 vao = Some (VertexArrayObj v0) \<and> attachedBufferCount v0 = 0
          \<and> VertexArray_dtor vao s1 = Inr s2
          \<and> calls s2 = calls s1 @ [GlDeleteVertexArrays 1 (VertexArray_handle v0),
                                     Free (attachedBuffers v0)]
          \<and> buffer_destroys (calls s2) = buffer_destroys (calls s1)"
    using v by auto
qed

lemma scene_facts:
  "objs scene 4224 = Some (VertexArrayObj \<lparr>VertexArray_handle = 39, attachedBuffers = 4192,
                   attachedBufferCount = 2\<rparr>)"
  "allocator scene \<noteq> None"
  "links_at scene 4192 [4096, 4128]"
  "list_all (is_Buffer scene) [4096, 4128]"
  "handle_at scene 4096 = 2" "handle_at scene 4128 = 7"
  by (simp_all add: scene_def is_Buffer_def handle_at_def)

lemma bare_make:
  "VertexArray_make \<lparr>first = 0, len = 0\<rparr> (\<lambda>h buffers s. Inr s) (boot quiet)
     = Inr (4112, \<lparr>allocator = Some (defaultAllocator\<lparr>user := 4144\<rparr>), device = quiet,
          calls = [GladLoadGL, GlGenVertexArrays 1 2, GlBindVertexArray 2, GlGetError 0, GlGetError 0,
                   Allocate 0 4096, Allocate 24 4112],
          objs = [4112 \<mapsto> VertexArrayObj \<lparr>VertexArray_handle = 2, attachedBuffers = 4096,
                     attachedBufferCount = 0\<rparr>],
          cells = Map.empty\<rparr>)"
  by (simp add: boot_eval VertexArray_make_def run_simps call_def)

theorem VertexArray_dtor_order_witness:
  "(\<exists>s'. VertexArray_dtor 4224 scene = Inr s'
      \<and> calls s' = calls scene @ [GlDeleteVertexArrays 1 39, GlDeleteBuffers 1 2,
           GlDeleteBuffers 1 7, Free 4192]
      \<and> buffer_destroys (calls s') = buffer_destroys (calls scene) + 2)
   \<and> (\<exists>s2. VertexArray_dtor 4112
              (final_of (VertexArray_make \<lparr>first = 0, len = 0\<rparr> (\<lambda>h buffers s. Inr s) (boot quiet)))
            = Inr s2
      \<and> calls s2 = [GladLoadGL, GlGenVertexArrays 1 2, GlBindVertexArray 2, GlGetError 0,
           GlGetError 0, Allocate 0 4096, Allocate 24 4112, GlDeleteVertexArrays 1 2, Free 4096]
      \<and> buffer_destroys (calls s2) = 0)"
proof -
  have A: "\<exists>s'. VertexArray_dtor 4224 scene = Inr s'
      \<and> calls s' = calls scene @ [GlDeleteVertexArrays 1 39, GlDeleteBuffers 1 2,
           GlDeleteBuffers 1 7, Free 4192]
      \<and> buffer_destroys (calls s') = buffer_destroys (calls scene) + 2"
    using VertexArray_dtor_order [THEN conjunct1, rule_format,
        where s = scene and this = 4224 and ps = "[4096, 4128]"
          and v = "\<lparr>VertexArray_handle = 39, attachedBuffers = 4192, attachedBufferCount = 2\<rparr>"]
      scene_facts
    by simp
  have B: "\<exists>s2. VertexArray_dtor 4112
              (final_of (VertexArray_make \<lparr>first = 0, len = 0\<rparr> (\<lambda>h buffers s. Inr s) (boot quiet)))
            = Inr s2
      \<and> calls s2 = [GladLoadGL, GlGenVertexArrays 1 2, GlBindVertexArray 2, GlGetError 0,
           GlGetError 0, Allocate 0 4096, Allocate 24 4112, GlDeleteVertexArrays 1 2, Free 4096]
      \<and> buffer_destroys (calls s2) = 0"
    using VertexArray_dtor_order [THEN conjunct2, rule_format, OF bare_make]
    by (auto simp add: bare_make buffer_destroys_def)
  from A B show ?thesis by (rule conjI)
qed

subsection \<open>Operations that leave the objects alone\<close>

lemma only_logged_refl: "only_logged s s"
  unfolding only_logged_def by (rule exI [of _ "[]"]) simp

lemma only_logged_call: "only_logged s s1 \<Longrightarrow> only_logged s (call e s1)"
  by (auto simp add: only_logged_def call_def)

lemma only_logged_check: "only_logged s s1 \<Longrightarrow> only_logged s (final (MGL_OPENGL_CHECK s1))"
  by (auto simp add: only_logged_def MGL_OPENGL_CHECK_def glGetErrorString_def glGetError_def
      call_def Let_def)

lemma only_logged_unchanged: "only_logged s s' \<Longrightarrow> unchanged s s'"
  by (auto simp add: only_logged_def unchanged_def)

lemma only_logged_fields:
  "only_logged s s' \<Longrightarrow>
     objs s' = objs s \<and> cells s' = cells s \<and> allocator s' = allocator s \<and> device s' = device s"
  by (auto simp add: only_logged_def)

lemma final_bindE_the:
  "final (bindE (the_Buffer s p) f) = (case the_Buffer s p of Inl (e, s') \<Rightarrow> s | Inr b \<Rightarrow> final (f b))"
  "final (bindE (the_Texture s p) g) = (case the_Texture s p of Inl (e, s') \<Rightarrow> s | Inr t \<Rightarrow> final (g t))"
  "final (bindE (the_Program s p) h) = (case the_Program s p of Inl (e, s') \<Rightarrow> s | Inr t \<Rightarrow> final (h t))"
  "final (bindE (the_VertexArray s p) k) = (case the_VertexArray s p of Inl (e, s') \<Rightarrow> s | Inr t \<Rightarrow> final (k t))"
  by (auto simp add: the_Buffer_def the_Texture_def the_Program_def the_VertexArray_def final_def
      split: option.splits obj.splits)

lemmas only_logged_steps = final_bindE_the only_logged_check only_logged_call only_logged_refl

lemma Buffer_bind_frame: "only_logged s (final (Buffer_bind buffer s))"
  by (simp add: Buffer_bind_def only_logged_steps split: sum.splits prod.splits)

lemma Buffer_write_frame: "only_logged s (final (Buffer_write buffer data n offset s))"
  by (simp add: Buffer_write_def only_logged_steps Let_def split: sum.splits prod.splits)

lemma Texture_write_frame: "only_logged s (final (Texture_write texture x y w h t data s))"
  by (simp add: Texture_write_def only_logged_steps Let_def split: sum.splits prod.splits)

lemma Texture_setOptions_frame: "only_logged s (final (Texture_setOptions texture options s))"
  by (simp add: Texture_setOptions_def only_logged_steps Let_def split: sum.splits prod.splits)

lemma Program_use_frame: "only_logged s (final (Program_use program s))"
  by (simp add: Program_use_def only_logged_steps split: sum.splits prod.splits)

lemma Program_uniform_frame: "only_logged s (final_of (Program_uniform program name s))"
  by (simp add: Program_uniform_def the_Program_def glGetUniformLocation_def
      only_logged_refl only_logged_call Let_def split: option.splits obj.splits)

lemma Program_subscript_frame: "only_logged s (final_of (Program_subscript program name s))"
  by (simp add: Program_subscript_def the_Program_def glGetUniformLocation_def
      only_logged_refl only_logged_call Let_def split: option.splits obj.splits)

lemma VertexArray_bind_frame: "only_logged s (final (VertexArray_bind vao s))"
  by (simp add: VertexArray_bind_def only_logged_steps split: sum.splits prod.splits)

lemma VertexArray_draw_frame: "only_logged s (final (VertexArray_draw vao mode offset n s))"
  by (simp add: VertexArray_draw_def only_logged_steps
      split: sum.splits prod.splits DrawMode.splits)

lemma VertexArray_getBuffers_frame: "only_logged s (final_of (VertexArray_getBuffers vao s))"
  by (simp add: VertexArray_getBuffers_def the_VertexArray_def only_logged_refl
      split: option.splits obj.splits)

text \<open>
  C10. Binding a buffer and writing to it, writing to a texture and setting its options,
  using a program and looking a uniform up in it, binding and drawing a vertex array and
  asking for its buffers: however the run ends, the state it ends in is the state it
  started in with device calls added to the log. So every object (each handle, size,
  type, format, link pointer and count) and every cell of the arrays of links is as it
  was, and so are the installed allocator, its state and the device: nothing but the
  device is acted on.
\<close>

theorem operations_frame:
  "(\<exists>es. final (Buffer_bind buffer s) = s\<lparr>calls := calls s @ es\<rparr>)
   \<and> (\<exists>es. final (Buffer_write buffer data n offset s) = s\<lparr>calls := calls s @ es\<rparr>)
   \<and> (\<exists>es. final (Buffer_write_array buffer sizeof_ArrayType array offset s)
            = s\<lparr>calls := calls s @ es\<rparr>)
   \<and> (\<exists>es. final (Texture_write texture x y w h sourceDataType data s)
            = s\<lparr>calls := calls s @ es\<rparr>)
   \<and> (\<exists>es. final (Texture_setOptions texture options s) = s\<lparr>calls := calls s @ es\<rparr>)
   \<and> (\<exists>es. final (Program_use program s) = s\<lparr>calls := calls s @ es\<rparr>)
   \<and> (\<exists>es. final_of (Program_uniform program name s) = s\<lparr>calls := calls s @ es\<rparr>)
   \<and> (\<exists>es. final_of (Program_subscript program name s) = s\<lparr>calls := calls s @ es\<rparr>)
   \<and> (\<exists>es. final (VertexArray_bind vao s) = s\<lparr>calls := calls s @ es\<rparr>)
   \<and> (\<exists>es. final (VertexArray_draw vao mode start count s) = s\<lparr>calls := calls s @ es\<rparr>)
   \<and> (\<exists>es. final_of (VertexArray_getBuffers vao s) = s\<lparr>calls := calls s @ es\<rparr>)
   \<and> unchanged s (final (Buffer_bind buffer s))
   \<and> unchanged s (final (Buffer_write buffer data n offset s))
   \<and> unchanged s (final (Buffer_write_array buffer sizeof_ArrayType array offset s))
   \<and> unchanged s (final (Texture_write texture x y w h sourceDataType data s))
   \<and> unchanged s (final (Texture_setOptions texture options s))
   \<and> unchanged s (final (Program_use program s))
   \<and> unchanged s (final_of (Program_uniform program name s))
   \<and> unchanged s (final_of (Program_subscript program name s))
   \<and> unchanged s (final (VertexArray_bind vao s))
   \<and> unchanged s (final (VertexArray_draw vao mode start count s))
   \<and> unchanged s (final_of (VertexArray_getBuffers vao s))"
proof -
  have w: "only_logged s (final (Buffer_write_array buffer sizeof_ArrayType array offset s))"
    by (simp add: Buffer_write_array_def Buffer_write_frame)
  note frames = Buffer_bind_frame [of s buffer] Buffer_write_frame [of s buffer data n offset] w
    Texture_write_frame [of s texture x y w h sourceDataType data]
    Texture_setOptions_frame [of s texture options] Program_use_frame [of s program]
    Program_uniform_frame [of s program name] Program_subscript_frame [of s program name]
    VertexArray_bind_frame [of s vao] VertexArray_draw_frame [of s vao mode start count]
    VertexArray_getBuffers_frame [of s vao]
  show ?thesis
    using frames frames [THEN only_logged_unchanged]
    by (simp add: only_logged_def)
qed

lemma scene_objects:
  "the_Buffer scene 4096 = Inr \<lparr>Buffer_handle = 2, Buffer_size = 4096, Buffer_type = Array\<rparr>"
  "the_Texture scene 4160 = Inr \<lparr>Texture_handle = 12, Texture_format = RGB32f\<rparr>"
  "the_Program scene 4176 = Inr \<lparr>Program_handle = 29\<rparr>"
  "the_VertexArray scene 4224 = Inr \<lparr>VertexArray_handle = 39, attachedBuffers = 4192,
                   attachedBufferCount = 2\<rparr>"
  "device scene = quiet"
  by (simp_all add: scene_def the_Buffer_def the_Texture_def the_Program_def the_VertexArray_def)

text \<open>The operations on the objects of the example run.\<close>

theorem operations_frame_witness:
  "final (Buffer_write 4096 12288 24 0 scene)
     = scene\<lparr>calls := calls scene @ [GlBindBuffer GL_ARRAY_BUFFER 2,
                 GlBufferSubData GL_ARRAY_BUFFER 0 24 12288, GlGetError 0]\<rparr>
   \<and> objs (final (Buffer_write 4096 12288 24 0 scene)) = objs scene
   \<and> cells (final (Buffer_write 4096 12288 24 0 scene)) = cells scene
   \<and> final (Texture_write 4160 0 0 1 1 Byte 12288 scene)
     = scene\<lparr>calls := calls scene @ [GlBindTexture GL_TEXTURE_2D 12,
                 GlTexSubImage2D GL_TEXTURE_2D 0 0 0 1 1 GL_RGB32F GL_UNSIGNED_BYTE 12288,
                 GlGetError 0]\<rparr>
   \<and> objs (final (Texture_write 4160 0 0 1 1 Byte 12288 scene)) = objs scene
   \<and> Program_uniform 4176 \<lparr>first = 32768, len = 6\<rparr> scene
     = Inr (\<lparr>UniformSetter_program = 4176, UniformSetter_index = 0\<rparr>,
            scene\<lparr>calls := calls scene @ [GlGetUniformLocation 29 32768 0]\<rparr>)
   \<and> objs (final_of (Program_uniform 4176 \<lparr>first = 32768, len = 6\<rparr> scene)) = objs scene
   \<and> final (VertexArray_draw 4224 Triangles 0 3 scene)
     = scene\<lparr>calls := calls scene @ [GlDrawArrays GL_TRIANGLES 0 3, GlGetError 0]\<rparr>
   \<and> objs (final (VertexArray_draw 4224 Triangles 0 3 scene)) = objs scene
   \<and> cells (final (VertexArray_draw 4224 Triangles 0 3 scene)) = cells scene
   \<and> allocator (final (VertexArray_draw 4224 Triangles 0 3 scene)) = allocator scene"
  using operations_frame [where s = scene and buffer = 4096 and data = 12288 and n = 24
      and offset = 0 and sizeof_ArrayType = 8 and array = "\<lparr>first = 12288, len = 3\<rparr>"
      and texture = 4160 and x = 0 and y = 0 and w = 1 and h = 1 and sourceDataType = Byte
      and options = "\<lparr>filter_min = Nearest, filter_mag = Nearest, wrap_s = ClampToEdge,
                       wrap_t = ClampToEdge, wrap_r = ClampToEdge\<rparr>"
      and program = 4176 and name = "\<lparr>first = 32768, len = 6\<rparr>"
      and vao = 4224 and mode = Triangles and start = 0 and count = 3]
  by (simp add: unchanged_def Buffer_write_def Texture_write_def Program_uniform_def
      VertexArray_draw_def scene_objects check_ok glGetUniformLocation_def View_data_def Let_def
      call_def)

subsection \<open>Making a texture\<close>

text \<open>
  C6 as stated fails: for a texture stored as RGBA8u and made from a descriptor whose
  format is RED, the source-format argument of the upload is \<^verbatim>\<open>GL_RED\<close>, not the
  reduction \<^verbatim>\<open>GL_RGBA\<close> of the storage format.
\<close>

theorem Texture_make_source_format_counterexample:
  "calls (final_of (Texture_make 1 1 RGBA8u
       (Some \<lparr>source_format = RED, source_type = Byte, source_data = 12288\<rparr>) (boot quiet)))
     = [GladLoadGL, GlGenTextures 1 2, GlBindTexture GL_TEXTURE_2D 2,
        GlTexImage2D GL_TEXTURE_2D 0 GL_RGBA8 1 1 0 GL_RED GL_UNSIGNED_BYTE 12288,
        GlGetError 0, Allocate 8 4096]
   \<and> enum_cast_TextureFormat (sizedToBase RGBA8u) = GL_RGBA
   \<and> GlTexImage2D GL_TEXTURE_2D 0 GL_RGBA8 1 1 0
         (enum_cast_TextureFormat (sizedToBase RGBA8u)) GL_UNSIGNED_BYTE 12288
       \<notin> set (calls (final_of (Texture_make 1 1 RGBA8u
             (Some \<lparr>source_format = RED, source_type = Byte, source_data = 12288\<rparr>) (boot quiet))))"
  by (simp add: boot_eval Texture_make_def run_simps call_def)

text \<open>
  C6, amended. With a descriptor, \<open>Texture::make\<close> generates a texture name, binds it
  and uploads the image with the storage format as internal format, the reduction
  \<open>sizedToBase\<close> of the descriptor's own format as source format, and the
  descriptor's element type and data pointer; then it queries the device error and,
  unless that stops the run, allocates the object.
\<close>

theorem Texture_make_upload_format:
  "\<exists>handle e rest.
     calls (final_of (Texture_make w h deviceFormat (Some d) s))
       = calls s @ [GlGenTextures 1 handle, GlBindTexture GL_TEXTURE_2D handle,
           GlTexImage2D GL_TEXTURE_2D 0 (enum_cast_TextureFormat deviceFormat) w h 0
             (enum_cast_TextureFormat (sizedToBase (source_format d)))
             (enum_cast_DataType (source_type d)) (source_data d),
           GlGetError e] @ rest
     \<and> (rest = [] \<or> (\<exists>p. rest = [Allocate 8 p]))"
  by (auto simp add: Texture_make_def glGenName_def MGL_OPENGL_CHECK_def glGetErrorString_def
      glGetError_def newObject_def allocator_allocate_def final_of_def Let_def
      split: option.splits prod.splits if_splits)

theorem Texture_make_upload_format_witness:
  "calls (final_of (Texture_make 1 1 RGB32f
       (Some \<lparr>source_format = RGBA8u, source_type = Float, source_data = 12288\<rparr>) (boot quiet)))
     = [GladLoadGL, GlGenTextures 1 2, GlBindTexture GL_TEXTURE_2D 2,
        GlTexImage2D GL_TEXTURE_2D 0 GL_RGB32F 1 1 0 GL_RGBA GL_FLOAT 12288,
        GlGetError 0, Allocate 8 4096]"
  using Texture_make_upload_format [of 1 1 RGB32f
      "\<lparr>source_format = RGBA8u, source_type = Float, source_data = 12288\<rparr>" "boot quiet"]
  by (simp add: boot_eval Texture_make_def run_simps call_def)

subsection \<open>Making a program\<close>

text \<open>
  C2 (the code departs from the claim). On a device that compiles the vertex shader and
  rejects the fragment shader, \<open>Program::make\<close> returns \<^verbatim>\<open>nullptr\<close> with the
  5-character log, and the vertex shader it created (name 2) is never deleted: the only
  \<^verbatim>\<open>glDeleteShader\<close> call is for the fragment shader (name 8).
\<close>

theorem Program_make_fragment_failure_leaks_vertex_shader:
  "value_of (Program_make \<lparr>first = 24576, len = 120\<rparr> \<lparr>first = 28672, len = 90\<rparr>
       \<lparr>first = 16384, len = 1024\<rparr> (boot fragment_rejecting))
     = Some (0, \<lparr>first = 16384, len = 5\<rparr>)
   \<and> calls (final_of (Program_make \<lparr>first = 24576, len = 120\<rparr> \<lparr>first = 28672, len = 90\<rparr>
       \<lparr>first = 16384, len = 1024\<rparr> (boot fragment_rejecting)))
     = [GladLoadGL,
        GlCreateShader GL_VERTEX_SHADER 2, GlShaderSource 2 1 24576 120, GlCompileShader 2,
        GlGetShaderiv 2 GL_COMPILE_STATUS (Some 1), GlGetError 0, GlGetError 0,
        GlCreateShader GL_FRAGMENT_SHADER 8, GlShaderSource 8 1 28672 90, GlCompileShader 8,
        GlGetShaderiv 8 GL_COMPILE_STATUS (Some 0), GlGetError 0,
        GlGetShaderInfoLog 8 1023 5 16384, GlDeleteShader 8, GlGetError 0]
   \<and> GlDeleteShader 2 \<notin> set (calls (final_of (Program_make \<lparr>first = 24576, len = 120\<rparr>
       \<lparr>first = 28672, len = 90\<rparr> \<lparr>first = 16384, len = 1024\<rparr> (boot fragment_rejecting))))"
  by (simp add: boot_eval Program_make_def compile_def run_simps call_def value_of_def
      size_t_of_int_def)

text \<open>
  When it is the link that fails, both shaders and the program are deleted before the
  \<^verbatim>\<open>nullptr\<close> is returned.
\<close>

lemma Program_make_link_failure_deletes_all:
  "value_of (Program_make \<lparr>first = 24576, len = 120\<rparr> \<lparr>first = 28672, len = 90\<rparr>
       \<lparr>first = 16384, len = 1024\<rparr> (boot link_rejecting))
     = Some (0, \<lparr>first = 16384, len = 5\<rparr>)
   \<and> calls (final_of (Program_make \<lparr>first = 24576, len = 120\<rparr> \<lparr>first = 28672, len = 90\<rparr>
       \<lparr>first = 16384, len = 1024\<rparr> (boot link_rejecting)))
     = [GladLoadGL,
        GlCreateShader GL_VERTEX_SHADER 2, GlShaderSource 2 1 24576 120, GlCompileShader 2,
        GlGetShaderiv 2 GL_COMPILE_STATUS (Some 1), GlGetError 0, GlGetError 0,
        GlCreateShader GL_FRAGMENT_SHADER 8, GlShaderSource 8 1 28672 90, GlCompileShader 8,
        GlGetShaderiv 8 GL_COMPILE_STATUS (Some 1), GlGetError 0, GlGetError 0,
        GlCreateProgram 14, GlAttachShader 14 2, GlAttachShader 14 8,
        GlDeleteShader 2, GlDeleteShader 8, GlLinkProgram 14,
        GlGetProgramiv 14 GL_LINK_STATUS (Some 0), GlGetError 0,
        GlGetProgramInfoLog 14 1023 5 16384, GlDeleteProgram 14]"
  by (simp add: boot_eval Program_make_def compile_def run_simps call_def value_of_def
      size_t_of_int_def)

subsection \<open>Binding a sampler\<close>

text \<open>
  C9 (the code departs from the claim). A sampler constructed with slot 0 in storage that
  held the address of the example run's texture, and on which \<open>setTexture\<close> is never
  called, binds that texture's handle 12, not the null handle: the constructor leaves
  the \<open>texture\<close> member as the storage had it.
\<close>

theorem Sampler_bind_after_construction_binds_stale_texture:
  "Sampler_bind (Sampler_ctor \<lparr>Sampler_index = 3, Sampler_texture = 4160\<rparr> 0) scene
     = Inr (call (GlGetError 0) (call (GlBindTexture GL_TEXTURE_2D 12)
             (call (GlActiveTexture GL_TEXTURE0) scene)))
   \<and> Sampler_texture (Sampler_ctor \<lparr>Sampler_index = 3, Sampler_texture = 4160\<rparr> 0) = 4160"
  by (simp add: Sampler_bind_def Sampler_ctor_def the_Texture_def check_ok scene_def call_def)

text \<open>
  What does hold: the slot index is the constructor's argument and \<open>setTexture\<close> keeps
  it; \<open>bind\<close> activates unit \<^verbatim>\<open>GL_TEXTURE0 + index\<close> and binds handle 0 when the
  texture pointer is null, the texture's handle when it points to a texture.
\<close>

lemma Sampler_index_fixed:
  "Sampler_index (Sampler_ctor storage slotIndex) = slotIndex"
  "Sampler_index (Sampler_setTexture this texture) = Sampler_index this"
  by (simp_all add: Sampler_ctor_def Sampler_setTexture_def)

lemma Sampler_bind_null:
  "Sampler_texture this = 0 \<Longrightarrow>
     \<exists>e. calls (final (Sampler_bind this s))
       = calls s @ [GlActiveTexture (GL_TEXTURE0 + Sampler_index this),
                    GlBindTexture GL_TEXTURE_2D 0, GlGetError e]"
  by (simp add: Sampler_bind_def MGL_OPENGL_CHECK_def glGetErrorString_def glGetError_def Let_def)

lemma Sampler_bind_texture:
  "Sampler_texture this \<noteq> 0 \<Longrightarrow> objs s (Sampler_texture this) = Some (TextureObj t) \<Longrightarrow>
     \<exists>e. calls (final (Sampler_bind this s))
       = calls s @ [GlActiveTexture (GL_TEXTURE0 + Sampler_index this),
                    GlBindTexture GL_TEXTURE_2D (Texture_handle t), GlGetError e]"
  by (simp add: Sampler_bind_def the_Texture_def MGL_OPENGL_CHECK_def glGetErrorString_def
      glGetError_def Let_def)

subsection \<open>Releasing storage\<close>

text \<open>
  C5 (the code departs from the claim). The vertex array of the example run owns the two
  buffers, whose storage \<open>newObject\<close> took from the allocator (24 bytes at 4096 and at
  4128). Destroying it, even through \<open>deleteObject\<close>, frees the array of links and the
  vertex array's own storage only: the destructor runs \<^verbatim>\<open>~Buffer()\<close> on each buffer
  and never hands the buffers' storage back to the allocator.
\<close>

theorem VertexArray_dtor_keeps_buffer_storage:
  "calls (final (deleteObject VertexArray_dtor 4224 scene_run))
     = calls scene_run @ [GlDeleteVertexArrays 1 39, GlDeleteBuffers 1 2, GlDeleteBuffers 1 7,
                          Free 4192, Free 4224]
   \<and> Allocate 24 4096 \<in> set (calls scene_run) \<and> Allocate 24 4128 \<in> set (calls scene_run)
   \<and> Free 4096 \<notin> set (calls (final (deleteObject VertexArray_dtor 4224 scene_run)))
   \<and> Free 4128 \<notin> set (calls (final (deleteObject VertexArray_dtor 4224 scene_run)))"
proof -
  have "deleteObject VertexArray_dtor 4224 scene
      = Inr ((scene\<lparr>calls := calls scene @ [GlDeleteVertexArrays 1 39, GlDeleteBuffers 1 2,
                 GlDeleteBuffers 1 7, Free 4192, Free 4224],
               objs := [4160 \<mapsto> TextureObj \<lparr>Texture_handle = 12, Texture_format = RGB32f\<rparr>,
                        4176 \<mapsto> ProgramObj \<lparr>Program_handle = 29\<rparr>]\<rparr>))"
    by (simp add: deleteObject_def VertexArray_dtor_def VertexArray_getBuffers_def
        destroy_loop_unfold Buffer_dtor_def run_simps call_def scene_def fun_eq_iff)
  then show ?thesis
    by (simp add: scene_run_eval) (simp add: scene_def)
qed

end
